theory Spec2Isabelle
  imports Main
begin

section \<open>Python values, exceptions and effects\<close>

text \<open>
  The agent is dynamically typed Python. The workflow state is a dictionary whose
  values are declared \<open>str | None\<close> but tested at run time with \<open>isinstance\<close>,
  \<open>not x\<close> and \<open>str(x)\<close>, and the providers hand back decoded JSON. Values are
  therefore modelled by one datatype: \<open>None\<close>, booleans, integers, text, lists,
  dictionaries with text keys, and objects (a class name with its attributes; the
  reply of the reasoning engine and a \<open>RedditURLAnalysis\<close> instance are objects).
  Floats, bytes and objects with user-defined \<open>__bool__\<close>, \<open>__iter__\<close> or
  \<open>get\<close> are outside the model.
\<close>

datatype pyval =
    PNone
  | PBool bool
  | PInt int
  | PStr string
  | PList "pyval list"
  | PDict "(string \<times> pyval) list"
  | PObj string "(string \<times> pyval) list"

text \<open>
  Exceptions are values. \<open>ExternalError\<close> stands for whatever an external call
  raises (a network error, a timeout, an API error); all of them derive from
  \<open>Exception\<close>, which is what the handlers of the source catch.
\<close>

datatype exn =
    ValueError string
  | TypeError
  | AttributeError
  | ExternalError string

text \<open>
  The calls that leave the process, in the order they happen: HTTP requests to the
  provider, \<open>time.sleep\<close>, and the two ways the reasoning engine is invoked
  (\<open>llm.invoke\<close> and \<open>llm.with_structured_output(...).invoke\<close>). Diagnostic
  \<open>print\<close> output is not recorded.
\<close>

datatype event =
    HttpPost string pyval pyval
  | HttpGet string
  | Sleep nat
  | LLMInvoke pyval
  | StructuredInvoke pyval

text \<open>
  A computation yields an exception or a value, together with the external calls it
  made.
\<close>

type_synonym 'a run = "(exn + 'a) \<times> event list"

definition ret :: "'a \<Rightarrow> 'a run" where
  "ret x = (Inr x, [])"

definition raise :: "exn \<Rightarrow> 'a run" where
  "raise e = (Inl e, [])"

definition lift :: "exn + 'a \<Rightarrow> 'a run" where
  "lift r = (r, [])"

definition bind_run :: "'a run \<Rightarrow> ('a \<Rightarrow> 'b run) \<Rightarrow> 'b run" where
  "bind_run m f =
     (case m of
        (Inl e, t) \<Rightarrow> (Inl e, t)
      | (Inr x, t) \<Rightarrow> (case f x of (r, t') \<Rightarrow> (r, t @ t')))"

definition emit :: "event list \<Rightarrow> 'a run \<Rightarrow> 'a run" where
  "emit es m = (case m of (r, t) \<Rightarrow> (r, es @ t))"

text \<open>
  Everything outside the repository's code is a parameter: the environment variable
  \<open>BRIGHT_DATA_API_URL\<close>, the HTTP layer (\<open>requests.post\<close>/\<open>requests.get\<close>
  followed by \<open>raise_for_status\<close> and \<open>json()\<close>; \<open>Inl\<close> is any exception of
  that sequence), the reasoning engine, \<open>urllib.parse.quote_plus\<close> on text,
  \<open>str\<close> on a value that is not text, and the prompt builders of the module
  \<open>prompts\<close>. A GET request also receives the number of GET requests made before
  it in the same scrape, so that the provider may answer differently from one poll to
  the next. The prompt builders and \<open>llm.with_structured_output\<close> only assemble
  values and are taken to return; the calls that can raise are the HTTP requests and
  the two \<open>invoke\<close>s.
\<close>

record env =
  api_url :: "string option"
  http_post :: "string \<Rightarrow> pyval \<Rightarrow> pyval \<Rightarrow> exn + pyval"
  http_get :: "nat \<Rightarrow> string \<Rightarrow> exn + pyval"
  llm_invoke :: "pyval \<Rightarrow> exn + pyval"
  structured_invoke :: "pyval \<Rightarrow> exn + pyval"
  quote_plus :: "string \<Rightarrow> string"
  py_repr :: "pyval \<Rightarrow> string"
  get_google_analysis_messages :: "pyval \<Rightarrow> pyval \<Rightarrow> pyval"
  get_bing_analysis_messages :: "pyval \<Rightarrow> pyval \<Rightarrow> pyval"
  get_yandex_analysis_messages :: "pyval \<Rightarrow> pyval \<Rightarrow> pyval"
  get_reddit_url_analysis_messages :: "pyval \<Rightarrow> pyval \<Rightarrow> pyval"
  get_reddit_analysis_messages :: "pyval \<Rightarrow> pyval \<Rightarrow> pyval \<Rightarrow> pyval"
  get_synthesis_messages :: "pyval \<Rightarrow> pyval \<Rightarrow> pyval \<Rightarrow> pyval \<Rightarrow> pyval \<Rightarrow> pyval"

subsection \<open>Built-in operations\<close>

text \<open>Truth value testing (\<open>if x\<close>, \<open>not x\<close>).\<close>

fun truthy :: "pyval \<Rightarrow> bool" where
  "truthy PNone = False"
| "truthy (PBool b) = b"
| "truthy (PInt i) = (i \<noteq> 0)"
| "truthy (PStr s) = (s \<noteq> [])"
| "truthy (PList xs) = (xs \<noteq> [])"
| "truthy (PDict kvs) = (kvs \<noteq> [])"
| "truthy (PObj c attrs) = True"

fun is_str :: "pyval \<Rightarrow> bool" where
  "is_str (PStr s) = True"
| "is_str v = False"

fun is_list :: "pyval \<Rightarrow> bool" where
  "is_list (PList xs) = True"
| "is_list v = False"

fun is_dict :: "pyval \<Rightarrow> bool" where
  "is_dict (PDict kvs) = True"
| "is_dict v = False"

text \<open>\<open>str(v)\<close>: the identity on text, the parameter \<open>py_repr\<close> elsewhere.\<close>

definition py_str :: "env \<Rightarrow> pyval \<Rightarrow> string" where
  "py_str env v = (case v of PStr s \<Rightarrow> s | _ \<Rightarrow> py_repr env v)"

text \<open>
  \<open>d.get(k, default)\<close>: only a dictionary has the method; on any other value the
  attribute lookup raises \<open>AttributeError\<close>.
\<close>

definition py_get :: "pyval \<Rightarrow> string \<Rightarrow> pyval \<Rightarrow> exn + pyval" where
  "py_get d k dflt =
     (case d of
        PDict kvs \<Rightarrow> Inr (case map_of kvs k of Some v \<Rightarrow> v | None \<Rightarrow> dflt)
      | _ \<Rightarrow> Inl AttributeError)"

text \<open>
  Iteration: a list yields its elements, text its characters, a dictionary its keys;
  nothing else is iterable.
\<close>

definition py_iter :: "pyval \<Rightarrow> exn + pyval list" where
  "py_iter v =
     (case v of
        PList xs \<Rightarrow> Inr xs
      | PStr s \<Rightarrow> Inr (map (\<lambda>c. PStr [c]) s)
      | PDict kvs \<Rightarrow> Inr (map (\<lambda>kv. PStr (fst kv)) kvs)
      | _ \<Rightarrow> Inl TypeError)"

definition py_len :: "pyval \<Rightarrow> exn + int" where
  "py_len v =
     (case v of
        PList xs \<Rightarrow> Inr (int (length xs))
      | PStr s \<Rightarrow> Inr (int (length s))
      | PDict kvs \<Rightarrow> Inr (int (length kvs))
      | _ \<Rightarrow> Inl TypeError)"

text \<open>\<open>list(v)\<close>.\<close>

definition py_list :: "pyval \<Rightarrow> exn + pyval" where
  "py_list v = (case py_iter v of Inl e \<Rightarrow> Inl e | Inr xs \<Rightarrow> Inr (PList xs))"

text \<open>A comprehension whose body may raise stops at the first element that does.\<close>

fun map_exn :: "('a \<Rightarrow> exn + 'b) \<Rightarrow> 'a list \<Rightarrow> exn + 'b list" where
  "map_exn f [] = Inr []"
| "map_exn f (x # xs) =
     (case f x of
        Inl e \<Rightarrow> Inl e
      | Inr y \<Rightarrow> (case map_exn f xs of Inl e \<Rightarrow> Inl e | Inr ys \<Rightarrow> Inr (y # ys)))"

text \<open>Attribute access \<open>obj.name\<close> and \<open>hasattr(obj, name)\<close>.\<close>

definition hasattr :: "pyval \<Rightarrow> string \<Rightarrow> bool" where
  "hasattr v a = (case v of PObj c attrs \<Rightarrow> map_of attrs a \<noteq> None | _ \<Rightarrow> False)"

definition getattr :: "pyval \<Rightarrow> string \<Rightarrow> exn + pyval" where
  "getattr v a =
     (case v of
        PObj c attrs \<Rightarrow> (case map_of attrs a of Some x \<Rightarrow> Inr x | None \<Rightarrow> Inl AttributeError)
      | _ \<Rightarrow> Inl AttributeError)"

subsection \<open>The workflow state\<close>

text \<open>
  \<open>State\<close> is a \<open>TypedDict\<close>, a plain dictionary at run time: a key may be
  missing, and a value may be \<open>None\<close>. A node returns the fields it writes.
\<close>

type_synonym state = "string \<rightharpoonup> pyval"

type_synonym update = "(string \<times> pyval) list"

text \<open>\<open>state.get(k)\<close> and \<open>state.get(k, default)\<close>.\<close>

definition state_get :: "state \<Rightarrow> string \<Rightarrow> pyval" where
  "state_get s k = (case s k of None \<Rightarrow> PNone | Some v \<Rightarrow> v)"

definition state_get_default :: "state \<Rightarrow> string \<Rightarrow> pyval \<Rightarrow> pyval" where
  "state_get_default s k dflt = (case s k of None \<Rightarrow> dflt | Some v \<Rightarrow> v)"

text \<open>
  An optional text field is empty when its key is missing, or its value is \<open>None\<close>
  or the empty string.
\<close>

definition empty_field :: "state \<Rightarrow> string \<Rightarrow> bool" where
  "empty_field s k = (s k = None \<or> s k = Some PNone \<or> s k = Some (PStr []))"

section \<open>serp\_web\_operations.py\<close>

datatype SearchEngine = GOOGLE | BING | Yandex

text \<open>
  \<open>_make_api_request\<close>: every exception of the request is caught and turned into
  \<open>None\<close>.
\<close>

definition make_api_request :: "env \<Rightarrow> string \<Rightarrow> pyval \<Rightarrow> pyval run" where
  "make_api_request env url json =
     emit [HttpPost url PNone json]
       (case http_post env url PNone json of
          Inl e \<Rightarrow> ret PNone
        | Inr v \<Rightarrow> ret v)"

definition base_url_of :: "SearchEngine \<Rightarrow> string" where
  "base_url_of engine =
     (let base_url = [];
          base_url = (if engine = GOOGLE then ''https://www.google.com/search?q='' else base_url);
          base_url = (if engine = BING then ''https://www.bing.com/search?q=''
                      else if engine = Yandex then ''https://yandex.com/search?text=''
                      else base_url)
      in base_url)"

text \<open>
  \<open>serp_search\<close>. The request body is built first, and \<open>quote_plus\<close> raises
  \<open>TypeError\<close> on a query that is not text; then a missing or empty
  \<open>BRIGHT_DATA_API_URL\<close> raises \<open>ValueError\<close>; a failed request gives
  \<open>None\<close>; \<open>full_response.get\<close> raises on a response that is not a dictionary.
  The first test, \<open>engine not in SearchEngine\<close>, is never true of a member of the
  enumeration and has no branch here.
\<close>

definition serp_search :: "env \<Rightarrow> pyval \<Rightarrow> SearchEngine \<Rightarrow> pyval run" where
  "serp_search env query engine =
     (case query of
        PStr q \<Rightarrow>
          (let data = PDict [(''zone'', PStr ''google_bing_serp_api_ai_agent''),
                             (''url'', PStr (base_url_of engine @ quote_plus env q @ ''&brd_json=1'')),
                             (''format'', PStr ''raw'')]
           in case api_url env of
                None \<Rightarrow> raise (ValueError ''BRIGHT_DATA_API_URL environment variable not set.'')
              | Some u \<Rightarrow>
                  if u = [] then raise (ValueError ''BRIGHT_DATA_API_URL environment variable not set.'')
                  else bind_run (make_api_request env u data) (\<lambda>full_response.
                    if \<not> truthy full_response then ret PNone
                    else bind_run (lift (py_get full_response ''knowledge'' (PDict []))) (\<lambda>knowledge.
                         bind_run (lift (py_get full_response ''organic'' (PDict []))) (\<lambda>organic.
                         ret (PDict [(''knowledge'', knowledge), (''organic'', organic)])))))
      | _ \<Rightarrow> raise TypeError)"

section \<open>reddit\_web\_operations.py\<close>

definition REDDIT_DATASET_ID :: string where
  "REDDIT_DATASET_ID = ''gd_lvz8ah06191smkebj4''"

definition REDDIT_DATA_COLLECTION_BASE_URL :: string where
  "REDDIT_DATA_COLLECTION_BASE_URL = ''https://api.brightdata.com/datasets/v3/trigger''"

definition REDDIT_SNAPSHOT_PROGRESS_BASE_URL :: string where
  "REDDIT_SNAPSHOT_PROGRESS_BASE_URL = ''https://api.brightdata.com/datasets/v3/progress''"

definition REDDIT_SNAPSHOT_URL :: string where
  "REDDIT_SNAPSHOT_URL = ''https://api.brightdata.com/datasets/v3/snapshot''"

definition MAX_ATTEMPTS :: nat where
  "MAX_ATTEMPTS = 50"

datatype RedditScrapeOperationType = POSTS | POST_COMMENTS

text \<open>
  \<open>__make_reddit_post_api_request\<close> and \<open>_make_reddit_get_api_request\<close>: as
  in the search client, every exception of the request becomes \<open>None\<close>.
\<close>

definition make_reddit_post_api_request :: "env \<Rightarrow> string \<Rightarrow> pyval \<Rightarrow> pyval \<Rightarrow> pyval run" where
  "make_reddit_post_api_request env url params json =
     emit [HttpPost url params json]
       (case http_post env url params json of
          Inl e \<Rightarrow> ret PNone
        | Inr v \<Rightarrow> ret v)"

definition make_reddit_get_api_request :: "env \<Rightarrow> nat \<Rightarrow> string \<Rightarrow> pyval run" where
  "make_reddit_get_api_request env clock url =
     emit [HttpGet url]
       (case http_get env clock url of
          Inl e \<Rightarrow> ret PNone
        | Inr v \<Rightarrow> ret v)"

definition trigger_reddit_data_collection :: "env \<Rightarrow> pyval \<Rightarrow> pyval run" where
  "trigger_reddit_data_collection env query =
     make_reddit_post_api_request env REDDIT_DATA_COLLECTION_BASE_URL
       (PDict [(''dataset_id'', PStr REDDIT_DATASET_ID),
               (''include_errors'', PStr ''true''),
               (''type'', PStr ''discover_new''),
               (''discover_by'', PStr ''keyword'')])
       (PList [PDict [(''keyword'', query),
                      (''date'', PStr ''All time''),
                      (''sort_by'', PStr ''Hot''),
                      (''num_of_posts'', PInt 100)]])"

definition get_post_comments_by_urls :: "env \<Rightarrow> pyval list \<Rightarrow> pyval run" where
  "get_post_comments_by_urls env post_urls =
     (let params = PDict [(''dataset_id'', PStr ''gd_lvzdpsdlw09j6t702''),
                          (''include_errors'', PStr ''true'')];
          data = PList (map (\<lambda>post_url.
                   PDict [(''url'', post_url),
                          (''days_back'', PInt 365),
                          (''load_all_replies'', PBool False),
                          (''comment_limit'', PInt 20)]) post_urls)
      in make_reddit_post_api_request env REDDIT_DATA_COLLECTION_BASE_URL params data)"

definition snapshot_status_url :: "env \<Rightarrow> pyval \<Rightarrow> string" where
  "snapshot_status_url env snapshot_id =
     REDDIT_SNAPSHOT_PROGRESS_BASE_URL @ ''/'' @ py_str env snapshot_id"

definition snapshot_data_url :: "env \<Rightarrow> pyval \<Rightarrow> string" where
  "snapshot_data_url env snapshot_id =
     REDDIT_SNAPSHOT_URL @ ''/'' @ py_str env snapshot_id"

definition get_snapshot_data_by_id :: "env \<Rightarrow> nat \<Rightarrow> pyval \<Rightarrow> pyval run" where
  "get_snapshot_data_by_id env clock snapshot_id =
     make_reddit_get_api_request env clock (snapshot_data_url env snapshot_id)"

definition get_snapshot_status_by_snapshot_id :: "env \<Rightarrow> nat \<Rightarrow> pyval \<Rightarrow> pyval run" where
  "get_snapshot_status_by_snapshot_id env clock snapshot_id =
     make_reddit_get_api_request env clock (snapshot_status_url env snapshot_id)"

text \<open>
  The two parsers run a comprehension over the snapshot and call \<open>.get\<close> on each
  element, so a snapshot that is not a list of dictionaries raises.
\<close>

definition parse_post :: "pyval \<Rightarrow> exn + pyval" where
  "parse_post post =
     (case py_get post ''title'' PNone of
        Inl e \<Rightarrow> Inl e
      | Inr title \<Rightarrow>
          (case py_get post ''url'' PNone of
             Inl e \<Rightarrow> Inl e
           | Inr url \<Rightarrow> Inr (PDict [(''title'', title), (''url'', url)])))"

definition parse_reddit_data_collection_response :: "pyval \<Rightarrow> exn + pyval" where
  "parse_reddit_data_collection_response response_data =
     (case py_iter response_data of
        Inl e \<Rightarrow> Inl e
      | Inr posts \<Rightarrow>
          (case map_exn parse_post posts of
             Inl e \<Rightarrow> Inl e
           | Inr parsed \<Rightarrow>
               (case py_len response_data of
                  Inl e \<Rightarrow> Inl e
                | Inr n \<Rightarrow> Inr (PDict [(''parsed_posts'', PList parsed), (''total_found'', PInt n)]))))"

definition comment_fields :: "string list" where
  "comment_fields = [''comment_id'', ''content'', ''date'', ''parent_comment_id'', ''post_title'', ''url'']"

definition parse_post_detail :: "pyval \<Rightarrow> exn + pyval" where
  "parse_post_detail post_detail =
     (case map_exn (\<lambda>k. case py_get post_detail k PNone of Inl e \<Rightarrow> Inl e | Inr v \<Rightarrow> Inr (k, v))
             comment_fields of
        Inl e \<Rightarrow> Inl e
      | Inr kvs \<Rightarrow> Inr (PDict kvs))"

definition parse_reddit_post_details_response :: "pyval \<Rightarrow> exn + pyval" where
  "parse_reddit_post_details_response response_data =
     (case py_iter response_data of
        Inl e \<Rightarrow> Inl e
      | Inr details \<Rightarrow>
          (case map_exn parse_post_detail details of
             Inl e \<Rightarrow> Inl e
           | Inr parsed \<Rightarrow>
               (case py_len response_data of
                  Inl e \<Rightarrow> Inl e
                | Inr n \<Rightarrow> Inr (PDict [(''parsed_comments'', PList parsed), (''total_found'', PInt n)]))))"

text \<open>
  The polling loop \<open>for attempt in range(MAX_ATTEMPTS)\<close> of \<open>scrap_reddit\<close>. The
  first number is how many attempts remain, the second is \<open>attempt\<close>; attempt
  \<open>i\<close> is preceded by exactly \<open>i\<close> GET requests, one status poll per earlier
  attempt. When the attempts are used up the loop ends and the function returns
  \<open>None\<close>.
\<close>

fun poll_loop :: "env \<Rightarrow> RedditScrapeOperationType \<Rightarrow> pyval \<Rightarrow> nat \<Rightarrow> nat \<Rightarrow> pyval run" where
  "poll_loop env op snapshot_id 0 attempt = ret PNone"
| "poll_loop env op snapshot_id (Suc n) attempt =
     bind_run (get_snapshot_status_by_snapshot_id env attempt snapshot_id) (\<lambda>snapshot_status_response.
       if \<not> truthy snapshot_status_response then ret PNone
       else bind_run (lift (py_get snapshot_status_response ''status'' PNone)) (\<lambda>status.
         if status = PStr ''ready'' then
           bind_run (get_snapshot_data_by_id env (Suc attempt) snapshot_id) (\<lambda>snapshot_response_data.
             if \<not> truthy snapshot_response_data then ret PNone
             else (case op of
                     POSTS \<Rightarrow> lift (parse_reddit_data_collection_response snapshot_response_data)
                   | POST_COMMENTS \<Rightarrow> lift (parse_reddit_post_details_response snapshot_response_data)))
         else if status = PStr ''failed'' then ret PNone
         else emit [Sleep 10] (poll_loop env op snapshot_id n (Suc attempt))))"

definition scrap_reddit :: "env \<Rightarrow> pyval \<Rightarrow> RedditScrapeOperationType \<Rightarrow> pyval run" where
  "scrap_reddit env query scrape_operation_type =
     bind_run
       (case (scrape_operation_type, query) of
          (POSTS, PStr q) \<Rightarrow> trigger_reddit_data_collection env query
        | (POST_COMMENTS, PList urls) \<Rightarrow> get_post_comments_by_urls env urls
        | _ \<Rightarrow> ret PNone)
       (\<lambda>response_data.
          if \<not> truthy response_data then ret PNone
          else bind_run (lift (py_get response_data ''snapshot_id'' PNone)) (\<lambda>snapshot_id.
            if \<not> truthy snapshot_id then ret PNone
            else poll_loop env scrape_operation_type snapshot_id MAX_ATTEMPTS 0))"

section \<open>main.py: the nodes of the graph\<close>

text \<open>\<open>llm.invoke(messages)\<close>.\<close>

definition invoke_llm :: "env \<Rightarrow> pyval \<Rightarrow> pyval run" where
  "invoke_llm env messages = emit [LLMInvoke messages] (lift (llm_invoke env messages))"

text \<open>\<open>try: body except Exception as e: handler\<close>.\<close>

definition try_except :: "'a run \<Rightarrow> (exn \<Rightarrow> 'a run) \<Rightarrow> 'a run" where
  "try_except body handler =
     (case body of
        (Inl e, t) \<Rightarrow> emit t (handler e)
      | (Inr x, t) \<Rightarrow> (Inr x, t))"

text \<open>
  The idiom \<open>if not isinstance(x, str): x = str(x) if x is not None else ""\<close>.
\<close>

definition coerce_text :: "env \<Rightarrow> pyval \<Rightarrow> pyval" where
  "coerce_text env x =
     (if \<not> is_str x then (if x \<noteq> PNone then PStr (py_str env x) else PStr []) else x)"

text \<open>
  The expression \<open>str(reply.content) if hasattr(reply, 'content') else str(reply)\<close>.
\<close>

definition reply_text :: "env \<Rightarrow> pyval \<Rightarrow> pyval" where
  "reply_text env reply =
     (if hasattr reply ''content'' then
        (case getattr reply ''content'' of
           Inr c \<Rightarrow> PStr (py_str env c)
         | Inl e \<Rightarrow> PStr (py_str env reply))
      else PStr (py_str env reply))"

subsection \<open>Gathering nodes\<close>

definition google_search :: "env \<Rightarrow> state \<Rightarrow> update run" where
  "google_search env state =
     (let user_input = state_get state ''user_input'' in
      if \<not> truthy user_input then ret [(''google_results'', PStr [])]
      else bind_run (serp_search env user_input GOOGLE) (\<lambda>google_results.
             ret [(''google_results'', google_results)]))"

definition bing_search :: "env \<Rightarrow> state \<Rightarrow> update run" where
  "bing_search env state =
     (let user_input = state_get state ''user_input'' in
      if \<not> truthy user_input then ret [(''bing_results'', PStr [])]
      else bind_run (serp_search env user_input BING) (\<lambda>bing_results.
             ret [(''bing_results'', bing_results)]))"

definition yandex_search :: "env \<Rightarrow> state \<Rightarrow> update run" where
  "yandex_search env state =
     (let user_input = state_get state ''user_input'' in
      if \<not> truthy user_input then ret [(''yandex_results'', PStr [])]
      else bind_run (serp_search env user_input Yandex) (\<lambda>yandex_results.
             ret [(''yandex_results'', yandex_results)]))"

definition reddit_search :: "env \<Rightarrow> state \<Rightarrow> update run" where
  "reddit_search env state =
     (let user_input = state_get state ''user_input'' in
      if \<not> truthy user_input then ret [(''reddit_results'', PStr [])]
      else bind_run (scrap_reddit env user_input POSTS) (\<lambda>reddit_results.
             ret [(''reddit_results'', reddit_results)]))"

subsection \<open>URL selection\<close>

text \<open>
  The \<open>if/elif\<close> chain that reads \<open>selected_urls\<close> out of the engine's answer: a
  dictionary, a \<open>RedditURLAnalysis\<close> instance, any object with the attribute, or
  anything else.
\<close>

definition extract_selected_urls :: "pyval \<Rightarrow> exn + pyval" where
  "extract_selected_urls analysis =
     (if is_dict analysis then py_get analysis ''selected_urls'' (PList [])
      else if (case analysis of PObj c attrs \<Rightarrow> c = ''RedditURLAnalysis'' | _ \<Rightarrow> False)
        then getattr analysis ''selected_urls''
      else if hasattr analysis ''selected_urls''
        then (case getattr analysis ''selected_urls'' of Inl e \<Rightarrow> Inr (PList []) | Inr v \<Rightarrow> Inr v)
      else Inr (PList []))"

text \<open>
  \<open>if not isinstance(selected_urls, list): selected_urls = list(selected_urls) if
  selected_urls is not None else []\<close>.
\<close>

definition ensure_list :: "pyval \<Rightarrow> exn + pyval" where
  "ensure_list selected_urls =
     (if \<not> is_list selected_urls then
        (if selected_urls \<noteq> PNone then py_list selected_urls else Inr (PList []))
      else Inr selected_urls)"

text \<open>
  \<open>select_reddit_urls\<close>. The local \<open>selected_urls\<close> starts as \<open>[]\<close> and is
  assigned inside the \<open>try\<close>; the handler only prints, and the \<open>return\<close> after
  it yields whatever the variable holds when the exception was raised: still
  \<open>[]\<close> when \<open>invoke\<close> or the attribute access raised, the value just assigned
  when \<open>list(selected_urls)\<close> raised.
\<close>

definition select_reddit_urls :: "env \<Rightarrow> state \<Rightarrow> update run" where
  "select_reddit_urls env state =
     (let user_input = state_get_default state ''user_input'' (PStr []);
          reddit_results = state_get state ''reddit_results''
      in if \<not> is_str user_input \<or> \<not> truthy reddit_results
         then ret [(''selected_reddit_urls'', PList [])]
         else
           (let reddit_results = (if \<not> is_str reddit_results
                                  then PStr (py_str env reddit_results) else reddit_results);
                messages = get_reddit_url_analysis_messages env user_input reddit_results
            in emit [StructuredInvoke messages]
                 (case structured_invoke env messages of
                    Inl e \<Rightarrow> ret [(''selected_reddit_urls'', PList [])]
                  | Inr analysis \<Rightarrow>
                      (case extract_selected_urls analysis of
                         Inl e \<Rightarrow> ret [(''selected_reddit_urls'', PList [])]
                       | Inr selected_urls \<Rightarrow>
                           (case ensure_list selected_urls of
                              Inl e \<Rightarrow> ret [(''selected_reddit_urls'', selected_urls)]
                            | Inr selected_list \<Rightarrow>
                                ret [(''selected_reddit_urls'', selected_list)])))))"

subsection \<open>Post detail retrieval\<close>

text \<open>
  The body of the \<open>try\<close> in \<open>retrieve_reddit_posts\<close>; \<open>Some content\<close> is the
  \<open>return\<close> inside it, \<open>None\<close> is falling out of the \<open>if\<close>s.
\<close>

definition retrieve_body :: "env \<Rightarrow> pyval \<Rightarrow> pyval \<Rightarrow> pyval \<Rightarrow> pyval option run" where
  "retrieve_body env user_input reddit_results selected_reddit_urls =
     bind_run (scrap_reddit env selected_reddit_urls POST_COMMENTS) (\<lambda>response_data.
       if truthy response_data then
         bind_run (lift (py_get response_data ''parsed_comments'' (PList []))) (\<lambda>reddit_post_data.
         bind_run (lift (py_len reddit_post_data)) (\<lambda>n.
           if truthy reddit_post_data then
             (let messages = get_reddit_analysis_messages env user_input reddit_results reddit_post_data
              in bind_run (invoke_llm env messages) (\<lambda>reply.
                   ret (Some (reply_text env reply))))
           else ret None))
       else ret None)"

definition retrieve_reddit_posts :: "env \<Rightarrow> state \<Rightarrow> update run" where
  "retrieve_reddit_posts env state =
     (let user_input = coerce_text env (state_get_default state ''user_input'' (PStr []));
          reddit_results = coerce_text env (state_get_default state ''reddit_results'' (PStr []));
          selected_reddit_urls = state_get state ''selected_reddit_urls''
      in if truthy selected_reddit_urls \<and> is_list selected_reddit_urls
            \<and> (case selected_reddit_urls of PList urls \<Rightarrow> length urls > 0 | _ \<Rightarrow> False)
         then
           bind_run
             (try_except (retrieve_body env user_input reddit_results selected_reddit_urls)
                (\<lambda>e. ret None))
             (\<lambda>returned. case returned of
                Some content \<Rightarrow> ret [(''reddit_post_data'', content)]
              | None \<Rightarrow> ret [(''reddit_post_data'', PStr [])])
         else ret [(''reddit_post_data'', PStr [])])"

subsection \<open>Analysis nodes\<close>

definition analyze_google_results :: "env \<Rightarrow> state \<Rightarrow> update run" where
  "analyze_google_results env state =
     (let user_input = state_get_default state ''user_input'' (PStr []);
          google_results = state_get state ''google_results''
      in if \<not> truthy user_input \<or> \<not> truthy google_results
         then ret [(''google_analysis'', PStr [])]
         else
           (let messages = get_google_analysis_messages env user_input google_results
            in bind_run (invoke_llm env messages) (\<lambda>reply.
               bind_run (lift (getattr reply ''content'')) (\<lambda>content.
                 ret [(''google_analysis'', content)]))))"

definition analyze_bing_results :: "env \<Rightarrow> state \<Rightarrow> update run" where
  "analyze_bing_results env state =
     (let user_input = coerce_text env (state_get_default state ''user_input'' (PStr []));
          bing_results = coerce_text env (state_get_default state ''bing_results'' (PStr []))
      in if \<not> truthy bing_results
         then ret [(''bing_analysis'', PStr [])]
         else
           (let messages = get_bing_analysis_messages env user_input bing_results
            in bind_run (invoke_llm env messages) (\<lambda>reply.
                 ret [(''bing_analysis'', reply_text env reply)])))"

definition analyze_yandex_results :: "env \<Rightarrow> state \<Rightarrow> update run" where
  "analyze_yandex_results env state =
     (let user_input = coerce_text env (state_get_default state ''user_input'' (PStr []));
          yandex_results = coerce_text env (state_get_default state ''yandex_results'' (PStr []))
      in if \<not> truthy yandex_results
         then ret [(''yandex_analysis'', PStr [])]
         else
           (let messages = get_yandex_analysis_messages env user_input yandex_results
            in bind_run (invoke_llm env messages) (\<lambda>reply.
                 ret [(''yandex_analysis'', reply_text env reply)])))"

text \<open>\<open>str(x if x is not None else "")\<close>.\<close>

definition str_or_empty :: "env \<Rightarrow> pyval \<Rightarrow> pyval" where
  "str_or_empty env x = PStr (py_str env (if x \<noteq> PNone then x else PStr []))"

definition analyze_reddit_results :: "env \<Rightarrow> state \<Rightarrow> update run" where
  "analyze_reddit_results env state =
     (let user_input = state_get state ''user_input'';
          reddit_results = state_get state ''reddit_results'';
          reddit_post_data = state_get state ''reddit_post_data''
      in if \<not> truthy reddit_post_data
         then ret [(''reddit_analysis'', PStr [])]
         else
           (let user_input_str = str_or_empty env user_input;
                reddit_results_str = str_or_empty env reddit_results
            in bind_run
                 (lift (if is_str reddit_post_data then Inr (PList [reddit_post_data])
                        else if reddit_post_data \<noteq> PNone then py_list reddit_post_data
                        else Inr (PList [])))
                 (\<lambda>reddit_post_data_list.
                    let messages = get_reddit_analysis_messages env
                                     user_input_str reddit_results_str reddit_post_data_list
                    in bind_run (invoke_llm env messages) (\<lambda>reply.
                       bind_run (lift (getattr reply ''content'')) (\<lambda>content.
                         ret [(''reddit_analysis'', content)])))))"

subsection \<open>Synthesis\<close>



section \<open>Test doubles\<close>

text \<open>
  Concrete environments in the manner of the mocks of \<open>tests/conftest.py\<close>: the
  prompt builders pack their arguments into a list, \<open>quote_plus\<close> is the identity
  and \<open>str\<close> of a non-text value is a fixed marker. The URL variable, the HTTP
  layer and the reasoning engine are chosen per scenario.
\<close>

definition mock_env ::
  "string option \<Rightarrow> (string \<Rightarrow> pyval \<Rightarrow> pyval \<Rightarrow> exn + pyval) \<Rightarrow> (nat \<Rightarrow> string \<Rightarrow> exn + pyval)
     \<Rightarrow> (pyval \<Rightarrow> exn + pyval) \<Rightarrow> (pyval \<Rightarrow> exn + pyval) \<Rightarrow> env" where
  "mock_env url post get llm structured =
     \<lparr> api_url = url,
       http_post = post,
       http_get = get,
       llm_invoke = llm,
       structured_invoke = structured,
       quote_plus = (\<lambda>q. q),
       py_repr = (\<lambda>v. ''<value>''),
       get_google_analysis_messages = (\<lambda>a b. PList [a, b]),
       get_bing_analysis_messages = (\<lambda>a b. PList [a, b]),
       get_yandex_analysis_messages = (\<lambda>a b. PList [a, b]),
       get_reddit_url_analysis_messages = (\<lambda>a b. PList [a, b]),
       get_reddit_analysis_messages = (\<lambda>a b c. PList [a, b, c]),
       get_synthesis_messages = (\<lambda>a b c d e. PList [a, b, c, d, e]) \<rparr>"

definition MockLLMResponse :: "string \<Rightarrow> pyval" where
  "MockLLMResponse content = PObj ''MockLLMResponse'' [(''content'', PStr content)]"

definition network_down_post :: "string \<Rightarrow> pyval \<Rightarrow> pyval \<Rightarrow> exn + pyval" where
  "network_down_post url params json = Inl (ExternalError ''Network error'')"

definition network_down_get :: "nat \<Rightarrow> string \<Rightarrow> exn + pyval" where
  "network_down_get clock url = Inl (ExternalError ''Network error'')"

definition llm_mocked :: "pyval \<Rightarrow> exn + pyval" where
  "llm_mocked messages = Inr (MockLLMResponse ''mocked response'')"

definition llm_failing :: "pyval \<Rightarrow> exn + pyval" where
  "llm_failing messages = Inl (ExternalError ''Analysis error'')"

definition mock_state :: state where
  "mock_state = [''user_input'' \<mapsto> PStr ''test query'',
                 ''google_results'' \<mapsto> PNone,
                 ''bing_results'' \<mapsto> PNone,
                 ''yandex_results'' \<mapsto> PNone,
                 ''reddit_results'' \<mapsto> PNone,
                 ''selected_reddit_urls'' \<mapsto> PNone,
                 ''reddit_post_data'' \<mapsto> PNone,
                 ''google_analysis'' \<mapsto> PNone,
                 ''bing_analysis'' \<mapsto> PNone,
                 ''yandex_analysis'' \<mapsto> PNone,
                 ''reddit_analysis'' \<mapsto> PNone,
                 ''final_answer'' \<mapsto> PNone]"

section \<open>Notions used in the statements\<close>


text \<open>The key \<open>user_input\<close> is present with a value that is not text.\<close>

definition non_text_input :: "state \<Rightarrow> bool" where
  "non_text_input s = (case s ''user_input'' of None \<Rightarrow> False | Some v \<Rightarrow> \<not> is_str v)"



text \<open>The prompt that \<open>select_reddit_urls\<close> builds from a state.\<close>

definition selection_messages :: "env \<Rightarrow> state \<Rightarrow> pyval" where
  "selection_messages env s =
     get_reddit_url_analysis_messages env
       (state_get_default s ''user_input'' (PStr []))
       (if \<not> is_str (state_get s ''reddit_results'')
        then PStr (py_str env (state_get s ''reddit_results''))
        else state_get s ''reddit_results'')"

text \<open>
  \<open>selected_reddit_urls\<close> is absent (no key or \<open>None\<close>) or the empty list; and
  its opposite as the node tests it, a non-empty list.
\<close>

definition no_selected_urls :: "state \<Rightarrow> bool" where
  "no_selected_urls s =
     (s ''selected_reddit_urls'' = None \<or> s ''selected_reddit_urls'' = Some PNone
      \<or> s ''selected_reddit_urls'' = Some (PList []))"

definition urls_present :: "state \<Rightarrow> bool" where
  "urls_present s =
     (case s ''selected_reddit_urls'' of Some (PList urls) \<Rightarrow> urls \<noteq> [] | _ \<Rightarrow> False)"

text \<open>The body of the \<open>try\<close> of \<open>retrieve_reddit_posts\<close>, run from a state.\<close>

definition retrieve_try :: "env \<Rightarrow> state \<Rightarrow> pyval option run" where
  "retrieve_try env s =
     retrieve_body env
       (coerce_text env (state_get_default s ''user_input'' (PStr [])))
       (coerce_text env (state_get_default s ''reddit_results'' (PStr [])))
       (state_get s ''selected_reddit_urls'')"

text \<open>
  What a trace says about polling. A GET on the progress endpoint is a status poll,
  a \<open>time.sleep(d)\<close> is a delay of \<open>d\<close>; every other call is left out.
\<close>

datatype tick = Poll | Delay nat

definition is_status_url :: "string \<Rightarrow> bool" where
  "is_status_url url =
     (take (length REDDIT_SNAPSHOT_PROGRESS_BASE_URL) url = REDDIT_SNAPSHOT_PROGRESS_BASE_URL)"

fun ticks_of :: "event \<Rightarrow> tick list" where
  "ticks_of (HttpGet url) = (if is_status_url url then [Poll] else [])"
| "ticks_of (Sleep d) = [Delay d]"
| "ticks_of e = []"

definition poll_schedule :: "event list \<Rightarrow> tick list" where
  "poll_schedule t = concat (map ticks_of t)"

text \<open>
  The status that poll number \<open>attempt\<close> reports: \<open>None\<close> when the request
  failed or the answer is empty or not a JSON object. A poll is pending when it reports
  a status other than \<open>ready\<close> and \<open>failed\<close>.
\<close>

definition poll_status :: "env \<Rightarrow> pyval \<Rightarrow> nat \<Rightarrow> pyval option" where
  "poll_status env snapshot_id attempt =
     (case http_get env attempt (snapshot_status_url env snapshot_id) of
        Inl e \<Rightarrow> None
      | Inr response \<Rightarrow>
          if truthy response then
            (case py_get response ''status'' PNone of Inl e \<Rightarrow> None | Inr status \<Rightarrow> Some status)
          else None)"

definition pending :: "env \<Rightarrow> pyval \<Rightarrow> nat \<Rightarrow> bool" where
  "pending env snapshot_id attempt =
     (case poll_status env snapshot_id attempt of
        None \<Rightarrow> False
      | Some status \<Rightarrow> status \<noteq> PStr ''ready'' \<and> status \<noteq> PStr ''failed'')"

text \<open>
  The snapshot id under which \<open>scrap_reddit\<close> polls: the \<open>snapshot_id\<close> of
  the answer to the job submission, when there is one.
\<close>

definition job_snapshot_id :: "env \<Rightarrow> pyval \<Rightarrow> RedditScrapeOperationType \<Rightarrow> pyval option" where
  "job_snapshot_id env query op =
     (case fst (case (op, query) of
                  (POSTS, PStr q) \<Rightarrow> trigger_reddit_data_collection env query
                | (POST_COMMENTS, PList urls) \<Rightarrow> get_post_comments_by_urls env urls
                | _ \<Rightarrow> ret PNone) of
        Inl e \<Rightarrow> None
      | Inr response_data \<Rightarrow>
          if truthy response_data then
            (case py_get response_data ''snapshot_id'' PNone of
               Inl e \<Rightarrow> None
             | Inr snapshot_id \<Rightarrow> if truthy snapshot_id then Some snapshot_id else None)
          else None)"

subsection \<open>Scenarios\<close>

text \<open>The URL variable is set, every HTTP request fails, the engine answers.\<close>

definition network_down_env :: env where
  "network_down_env =
     mock_env (Some ''http://api'') network_down_post network_down_get llm_mocked llm_mocked"

text \<open>The query is empty although search results are present.\<close>

definition empty_query_state :: state where
  "empty_query_state =
     mock_state(''user_input'' \<mapsto> PStr [],
                ''google_results'' \<mapsto> PStr ''g'',
                ''bing_results'' \<mapsto> PStr ''b'',
                ''yandex_results'' \<mapsto> PStr ''y'',
                ''reddit_results'' \<mapsto> PStr ''r'')"

text \<open>
  The query is empty, the Yandex results are the dictionary that \<open>serp_search\<close>
  returns, and post data are present.
\<close>

definition dict_results_state :: state where
  "dict_results_state =
     mock_state(''user_input'' \<mapsto> PStr [],
                ''google_results'' \<mapsto> PStr ''g'',
                ''bing_results'' \<mapsto> PStr ''b'',
                ''yandex_results'' \<mapsto> PDict [(''knowledge'', PDict []), (''organic'', PDict [])],
                ''reddit_post_data'' \<mapsto> PStr ''d'')"


text \<open>
  The structured engine answers with a raw mapping whose \<open>selected_urls\<close> is a
  number.
\<close>

definition malformed_mapping :: "pyval \<Rightarrow> exn + pyval" where
  "malformed_mapping messages = Inr (PDict [(''selected_urls'', PInt 5)])"

definition malformed_mapping_env :: env where
  "malformed_mapping_env =
     mock_env (Some ''http://api'') network_down_post network_down_get llm_mocked malformed_mapping"

definition reddit_found_state :: state where
  "reddit_found_state = mock_state(''reddit_results'' \<mapsto> PStr ''Mocked Reddit search results'')"

text \<open>\<open>BRIGHT_DATA_API_URL\<close> is not set.\<close>

definition url_unset_env :: env where
  "url_unset_env = mock_env None network_down_post network_down_get llm_mocked llm_mocked"

text \<open>Every call of the reasoning engine raises.\<close>

definition engine_failing_env :: env where
  "engine_failing_env =
     mock_env (Some ''http://api'') network_down_post network_down_get llm_failing llm_failing"

text \<open>
  The provider answers a job submission with JSON that is not an object, so that
  \<open>response_data.get\<close> raises inside \<open>scrap_reddit\<close>.
\<close>

definition garbled_post :: "string \<Rightarrow> pyval \<Rightarrow> pyval \<Rightarrow> exn + pyval" where
  "garbled_post url params json = Inr (PList [PInt 1])"

definition garbled_env :: env where
  "garbled_env = mock_env (Some ''http://api'') garbled_post network_down_get llm_mocked llm_mocked"

definition urls_selected_state :: state where
  "urls_selected_state = mock_state(''selected_reddit_urls'' \<mapsto> PList [PStr ''url1''])"

text \<open>
  A submitted job that stays \<open>running\<close> for ever, one whose second poll reports
  \<open>failed\<close>, and one that is \<open>ready\<close> at the first poll and delivers one
  comment while the reasoning engine raises.
\<close>

definition job_accepted_post :: "string \<Rightarrow> pyval \<Rightarrow> pyval \<Rightarrow> exn + pyval" where
  "job_accepted_post url params json = Inr (PDict [(''snapshot_id'', PStr ''s1'')])"

definition never_ready_get :: "nat \<Rightarrow> string \<Rightarrow> exn + pyval" where
  "never_ready_get clock url = Inr (PDict [(''status'', PStr ''running'')])"

definition fails_second_get :: "nat \<Rightarrow> string \<Rightarrow> exn + pyval" where
  "fails_second_get clock url =
     (if clock = 1 then Inr (PDict [(''status'', PStr ''failed'')])
      else Inr (PDict [(''status'', PStr ''running'')]))"

definition never_ready_env :: env where
  "never_ready_env = mock_env (Some ''http://api'') job_accepted_post never_ready_get llm_mocked llm_mocked"

definition fails_second_env :: env where
  "fails_second_env = mock_env (Some ''http://api'') job_accepted_post fails_second_get llm_mocked llm_mocked"

definition comments_ready_get :: "nat \<Rightarrow> string \<Rightarrow> exn + pyval" where
  "comments_ready_get clock url =
     (if clock = 0 then Inr (PDict [(''status'', PStr ''ready'')])
      else Inr (PList [PDict [(''comment_id'', PStr ''c1''),
                              (''content'', PStr ''Useful comment 1 about the topic'')]]))"

definition comments_ready_engine_failing_env :: env where
  "comments_ready_engine_failing_env =
     mock_env (Some ''http://api'') job_accepted_post comments_ready_get llm_failing llm_failing"

text \<open>The prompt that the retrieval node builds from that one comment.\<close>

definition comment_prompt :: pyval where
  "comment_prompt =
     PList [PStr ''test query'', PStr [],
            PList [PDict [(''comment_id'', PStr ''c1''),
                          (''content'', PStr ''Useful comment 1 about the topic''),
                          (''date'', PNone), (''parent_comment_id'', PNone),
                          (''post_title'', PNone), (''url'', PNone)]]]"

section \<open>Verified properties\<close>

subsection \<open>Shared lemmas\<close>

lemmas run_defs = ret_def raise_def lift_def bind_run_def emit_def try_except_def

lemma empty_field_falsy: "empty_field s k \<Longrightarrow> \<not> truthy (state_get s k)"
  by (auto simp: empty_field_def state_get_def)

lemma empty_field_default: "empty_field s k \<Longrightarrow> \<not> truthy (state_get_default s k (PStr []))"
  by (auto simp: empty_field_def state_get_default_def)

lemma empty_field_coerce:
  "empty_field s k \<Longrightarrow> coerce_text env (state_get_default s k (PStr [])) = PStr []"
  by (auto simp: empty_field_def state_get_default_def coerce_text_def)

lemma non_text_input_iff:
  "non_text_input s \<longleftrightarrow> \<not> is_str (state_get_default s ''user_input'' (PStr []))"
  by (simp add: non_text_input_def state_get_default_def split: option.splits)

lemma snd_emit: "snd (emit es m) = es @ snd m"
  by (simp add: emit_def split: prod.splits)

lemma fst_emit: "fst (emit es m) = fst m"
  by (simp add: emit_def split: prod.splits)

lemma llm_trace:
  "snd (bind_run (invoke_llm env m) f) =
     LLMInvoke m # (case llm_invoke env m of Inl e \<Rightarrow> [] | Inr r \<Rightarrow> snd (f r))"
  by (simp add: invoke_llm_def run_defs split: sum.splits prod.splits)

lemma serp_search_network_down:
  "serp_search network_down_env (PStr ''test query'') GOOGLE =
     (Inr PNone,
      [HttpPost ''http://api'' PNone
         (PDict [(''zone'', PStr ''google_bing_serp_api_ai_agent''),
                 (''url'', PStr ''https://www.google.com/search?q=test query&brd_json=1''),
                 (''format'', PStr ''raw'')])])"
  by (simp add: serp_search_def network_down_env_def mock_env_def network_down_post_def
        make_api_request_def base_url_of_def run_defs)

lemma snd_bind:
  "snd (bind_run m f) = snd m @ (case fst m of Inl e \<Rightarrow> [] | Inr x \<Rightarrow> snd (f x))"
  by (cases m) (simp add: bind_run_def split: sum.splits prod.splits)

lemma fst_bind:
  "fst (bind_run m f) = (case fst m of Inl e \<Rightarrow> Inl e | Inr x \<Rightarrow> fst (f x))"
  by (cases m) (simp add: bind_run_def split: sum.splits prod.splits)

lemma bind_lift_value: "bind_run (lift (Inr x)) f = f x"
  by (simp add: bind_run_def lift_def split: prod.splits)

lemma llm_trace_getattr:
  "snd (bind_run (invoke_llm env m) (\<lambda>reply. bind_run (lift (getattr reply a)) (\<lambda>c. ret (f c))))
     = [LLMInvoke m]"
  by (simp add: invoke_llm_def run_defs split: sum.splits prod.splits)

lemma coerce_text_as_str:
  "v \<noteq> PNone \<Longrightarrow> coerce_text env v = PStr (py_str env v)"
  by (cases v) (simp_all add: coerce_text_def py_str_def)

lemma empty_input_str: "empty_field s ''user_input'' \<Longrightarrow> str_or_empty env (state_get s ''user_input'') = PStr []"
  by (auto simp: empty_field_def state_get_def str_or_empty_def py_str_def)


subsection \<open>Gathering nodes\<close>

text \<open>
  Claim C8. A gathering node whose \<open>user_input\<close> is empty or missing (no key,
  \<open>None\<close> or the empty string) writes the empty string to its result field and
  makes no external call at all: the trace of the node is empty.
\<close>

theorem gathering_skips_provider_on_empty_input:
  assumes "empty_field s ''user_input''"
  shows "google_search env s = (Inr [(''google_results'', PStr [])], [])
       \<and> bing_search env s = (Inr [(''bing_results'', PStr [])], [])
       \<and> yandex_search env s = (Inr [(''yandex_results'', PStr [])], [])
       \<and> reddit_search env s = (Inr [(''reddit_results'', PStr [])], [])"
  using empty_field_falsy[OF assms]
  by (simp add: google_search_def bing_search_def yandex_search_def reddit_search_def ret_def)

theorem gathering_skips_provider_on_empty_input_witness:
  "empty_field (mock_state(''user_input'' \<mapsto> PStr [])) ''user_input''
   \<and> google_search network_down_env (mock_state(''user_input'' \<mapsto> PStr []))
       = (Inr [(''google_results'', PStr [])], [])
   \<and> bing_search network_down_env (mock_state(''user_input'' \<mapsto> PStr []))
       = (Inr [(''bing_results'', PStr [])], [])
   \<and> yandex_search network_down_env (mock_state(''user_input'' \<mapsto> PStr []))
       = (Inr [(''yandex_results'', PStr [])], [])
   \<and> reddit_search network_down_env (mock_state(''user_input'' \<mapsto> PStr []))
       = (Inr [(''reddit_results'', PStr [])], [])"
proof -
  have h: "empty_field (mock_state(''user_input'' \<mapsto> PStr [])) ''user_input''"
    by (simp add: empty_field_def)
  show ?thesis
    using h gathering_skips_provider_on_empty_input [OF h, of network_down_env] by simp
qed

text \<open>
  Claim C2, as the code has it. With a non-empty \<open>user_input\<close> a gathering node
  writes to its result field exactly what the provider returned, and makes exactly the
  provider's external calls. Nothing is coerced: when the provider returns \<open>None\<close>
  the field is \<open>None\<close>.
\<close>

theorem gathering_writes_provider_value_verbatim:
  assumes "truthy (state_get s ''user_input'')"
  shows "(serp_search env (state_get s ''user_input'') GOOGLE = (Inr v, t)
            \<longrightarrow> google_search env s = (Inr [(''google_results'', v)], t))
       \<and> (serp_search env (state_get s ''user_input'') BING = (Inr v, t)
            \<longrightarrow> bing_search env s = (Inr [(''bing_results'', v)], t))
       \<and> (serp_search env (state_get s ''user_input'') Yandex = (Inr v, t)
            \<longrightarrow> yandex_search env s = (Inr [(''yandex_results'', v)], t))
       \<and> (scrap_reddit env (state_get s ''user_input'') POSTS = (Inr v, t)
            \<longrightarrow> reddit_search env s = (Inr [(''reddit_results'', v)], t))"
  using assms
  by (simp add: google_search_def bing_search_def yandex_search_def reddit_search_def run_defs)

theorem gathering_writes_provider_value_verbatim_witness:
  "truthy (state_get mock_state ''user_input'')
   \<and> fst (serp_search network_down_env (state_get mock_state ''user_input'') GOOGLE) = Inr PNone
   \<and> fst (google_search network_down_env mock_state) = Inr [(''google_results'', PNone)]"
proof -
  have ui: "state_get mock_state ''user_input'' = PStr ''test query''"
    by (simp add: state_get_def mock_state_def)
  have h: "truthy (state_get mock_state ''user_input'')"
    by (simp add: ui)
  show ?thesis
    using h gathering_writes_provider_value_verbatim [OF h, of network_down_env PNone]
    by (simp add: ui serp_search_network_down)
qed

text \<open>
  Where claim C2 fails: the network is down, \<open>serp_search\<close> returns \<open>None\<close>, and
  \<open>google_search\<close> writes \<open>None\<close>, not the empty string.
\<close>

theorem gathering_none_not_coerced_counterexample:
  "truthy (state_get mock_state ''user_input'')
   \<and> fst (serp_search network_down_env (PStr ''test query'') GOOGLE) = Inr PNone
   \<and> fst (google_search network_down_env mock_state) = Inr [(''google_results'', PNone)]
   \<and> fst (google_search network_down_env mock_state) \<noteq> Inr [(''google_results'', PStr [])]"
  by (simp add: google_search_def mock_state_def state_get_def serp_search_network_down run_defs)

subsection \<open>URL selection: the guard\<close>

lemma select_short_circuit:
  "non_text_input s \<or> \<not> truthy (state_get s ''reddit_results'') \<Longrightarrow>
   select_reddit_urls env s = (Inr [(''selected_reddit_urls'', PList [])], [])"
  by (auto simp: select_reddit_urls_def non_text_input_iff ret_def Let_def)

lemma select_invokes_engine:
  "\<not> (non_text_input s \<or> \<not> truthy (state_get s ''reddit_results'')) \<Longrightarrow>
   snd (select_reddit_urls env s) \<noteq> []"
  by (auto simp: select_reddit_urls_def non_text_input_iff Let_def snd_emit)

text \<open>
  Claim C3, as the code has it. The guard of \<open>select_reddit_urls\<close> is
  \<open>not isinstance(user_input, str) or not reddit_results\<close>: the node writes
  \<open>[]\<close> without any external call when \<open>reddit_results\<close> is empty (falsy) or
  \<open>user_input\<close> is present but not text (for instance \<open>None\<close>), and in no other
  state. An empty-string or missing \<open>user_input\<close> does not stop it.
\<close>

theorem select_reddit_urls_guard:
  "(non_text_input s \<or> \<not> truthy (state_get s ''reddit_results'')
      \<longrightarrow> select_reddit_urls env s = (Inr [(''selected_reddit_urls'', PList [])], []))
   \<and> (snd (select_reddit_urls env s) = []
      \<longleftrightarrow> non_text_input s \<or> \<not> truthy (state_get s ''reddit_results''))"
  using select_short_circuit[of s env] select_invokes_engine[of s env] by auto

theorem select_reddit_urls_guard_witness:
  "non_text_input (mock_state(''user_input'' \<mapsto> PNone, ''reddit_results'' \<mapsto> PStr ''r''))
   \<and> select_reddit_urls network_down_env
        (mock_state(''user_input'' \<mapsto> PNone, ''reddit_results'' \<mapsto> PStr ''r''))
       = (Inr [(''selected_reddit_urls'', PList [])], [])"
  using select_reddit_urls_guard
          [of "mock_state(''user_input'' \<mapsto> PNone, ''reddit_results'' \<mapsto> PStr ''r'')"
              network_down_env]
  by (simp add: non_text_input_def)

text \<open>
  Where claim C3 fails: \<open>user_input\<close> is the empty string, \<open>reddit_results\<close> is
  not empty, and the reasoning engine is invoked.
\<close>

theorem select_reddit_urls_empty_query_counterexample:
  "empty_field empty_query_state ''user_input''
   \<and> snd (select_reddit_urls network_down_env empty_query_state)
       = [StructuredInvoke (PList [PStr [], PStr ''r''])]"
  by (simp add: empty_field_def empty_query_state_def select_reddit_urls_def state_get_def
        state_get_default_def network_down_env_def mock_env_def llm_mocked_def
        MockLLMResponse_def extract_selected_urls_def ensure_list_def hasattr_def run_defs)

subsection \<open>Analysis nodes: the guards\<close>

text \<open>
  Claim C9, as the code has it. The Google, Bing and Yandex analysis nodes write the
  empty string and make no external call when their raw result field is empty. The
  Reddit analysis node is guarded by \<open>reddit_post_data\<close>, not by
  \<open>reddit_results\<close>: it writes the empty string and makes no external call when
  \<open>reddit_post_data\<close> is empty.
\<close>

theorem analysis_skips_engine_on_empty_source:
  "(empty_field s ''google_results''
      \<longrightarrow> analyze_google_results env s = (Inr [(''google_analysis'', PStr [])], []))
 \<and> (empty_field s ''bing_results''
      \<longrightarrow> analyze_bing_results env s = (Inr [(''bing_analysis'', PStr [])], []))
 \<and> (empty_field s ''yandex_results''
      \<longrightarrow> analyze_yandex_results env s = (Inr [(''yandex_analysis'', PStr [])], []))
 \<and> (empty_field s ''reddit_post_data''
      \<longrightarrow> analyze_reddit_results env s = (Inr [(''reddit_analysis'', PStr [])], []))"
  by (simp add: analyze_google_results_def analyze_bing_results_def analyze_yandex_results_def
       analyze_reddit_results_def empty_field_falsy empty_field_coerce ret_def Let_def)

theorem analysis_skips_engine_on_empty_source_witness:
  "empty_field mock_state ''google_results'' \<and> empty_field mock_state ''bing_results''
   \<and> empty_field mock_state ''yandex_results'' \<and> empty_field mock_state ''reddit_post_data''
   \<and> analyze_google_results network_down_env mock_state = (Inr [(''google_analysis'', PStr [])], [])
   \<and> analyze_bing_results network_down_env mock_state = (Inr [(''bing_analysis'', PStr [])], [])
   \<and> analyze_yandex_results network_down_env mock_state = (Inr [(''yandex_analysis'', PStr [])], [])
   \<and> analyze_reddit_results network_down_env mock_state = (Inr [(''reddit_analysis'', PStr [])], [])"
proof -
  have h: "empty_field mock_state ''google_results'' \<and> empty_field mock_state ''bing_results''
   \<and> empty_field mock_state ''yandex_results'' \<and> empty_field mock_state ''reddit_post_data''"
    by (simp add: empty_field_def mock_state_def)
  show ?thesis
    using h analysis_skips_engine_on_empty_source [of mock_state network_down_env] by simp
qed

text \<open>
  Where claim C9 fails: \<open>reddit_results\<close> is empty, \<open>reddit_post_data\<close> is not,
  and \<open>analyze_reddit_results\<close> invokes the reasoning engine and writes its answer.
\<close>

theorem analyze_reddit_ignores_reddit_results_counterexample:
  "empty_field (mock_state(''reddit_results'' \<mapsto> PStr [], ''reddit_post_data'' \<mapsto> PStr ''d''))
     ''reddit_results''
   \<and> analyze_reddit_results network_down_env
        (mock_state(''reddit_results'' \<mapsto> PStr [], ''reddit_post_data'' \<mapsto> PStr ''d''))
     = (Inr [(''reddit_analysis'', PStr ''mocked response'')],
        [LLMInvoke (PList [PStr ''test query'', PStr [], PList [PStr ''d'']])])"
  by (simp add: empty_field_def analyze_reddit_results_def state_get_def mock_state_def
        str_or_empty_def py_str_def network_down_env_def mock_env_def llm_mocked_def
        MockLLMResponse_def invoke_llm_def getattr_def run_defs)

lemma google_skips_on_empty_input:
  "empty_field s ''user_input'' \<Longrightarrow>
   analyze_google_results env s = (Inr [(''google_analysis'', PStr [])], [])"
  using empty_field_default[of s "''user_input''"]
  by (simp add: analyze_google_results_def ret_def Let_def)

lemma google_invokes_with_input:
  assumes "truthy (state_get_default s ''user_input'' (PStr []))" "truthy (state_get s ''google_results'')"
  shows "snd (analyze_google_results env s)
           = [LLMInvoke (get_google_analysis_messages env
                           (state_get_default s ''user_input'' (PStr []))
                           (state_get s ''google_results''))]"
  using assms
  by (simp add: analyze_google_results_def Let_def llm_trace_getattr)

lemma bing_invokes_on_empty_input:
  assumes "empty_field s ''user_input''" "s ''bing_results'' = Some v" "v \<noteq> PNone" "py_str env v \<noteq> []"
  shows "snd (analyze_bing_results env s)
           = [LLMInvoke (get_bing_analysis_messages env (PStr []) (PStr (py_str env v)))]"
proof -
  have ui: "coerce_text env (state_get_default s ''user_input'' (PStr [])) = PStr []"
    using assms(1) by (rule empty_field_coerce)
  have br: "coerce_text env (state_get_default s ''bing_results'' (PStr [])) = PStr (py_str env v)"
    using assms(2,3) by (simp add: state_get_default_def coerce_text_as_str)
  show ?thesis
    using assms(4)
    by (simp add: analyze_bing_results_def ui br Let_def llm_trace ret_def split: sum.splits)
qed

lemma yandex_invokes_on_empty_input:
  assumes "empty_field s ''user_input''" "s ''yandex_results'' = Some v" "v \<noteq> PNone" "py_str env v \<noteq> []"
  shows "snd (analyze_yandex_results env s)
           = [LLMInvoke (get_yandex_analysis_messages env (PStr []) (PStr (py_str env v)))]"
proof -
  have ui: "coerce_text env (state_get_default s ''user_input'' (PStr [])) = PStr []"
    using assms(1) by (rule empty_field_coerce)
  have yr: "coerce_text env (state_get_default s ''yandex_results'' (PStr [])) = PStr (py_str env v)"
    using assms(2,3) by (simp add: state_get_default_def coerce_text_as_str)
  show ?thesis
    using assms(4)
    by (simp add: analyze_yandex_results_def ui yr Let_def llm_trace ret_def split: sum.splits)
qed

lemma reddit_invokes_on_empty_input:
  assumes "empty_field s ''user_input''" "s ''reddit_post_data'' = Some p" "truthy p"
    and "(if is_str p then Inr (PList [p]) else py_list p) = Inr l"
  shows "snd (analyze_reddit_results env s)
           = [LLMInvoke (get_reddit_analysis_messages env (PStr [])
                           (str_or_empty env (state_get s ''reddit_results'')) l)]"
proof -
  have rpd: "state_get s ''reddit_post_data'' = p"
    using assms(2) by (simp add: state_get_def)
  have np: "p \<noteq> PNone" using assms(3) by auto
  have conv: "(if is_str p then Inr (PList [p])
               else if p \<noteq> PNone then py_list p else Inr (PList [])) = Inr l"
    using assms(4) np by (auto split: if_splits)
  show ?thesis
    using assms(3)
    by (simp only: analyze_reddit_results_def rpd Let_def conv empty_input_str[OF assms(1)])
       (simp add: bind_lift_value llm_trace_getattr)
qed

text \<open>
  Claim C10. With an empty \<open>user_input\<close>, \<open>analyze_google_results\<close> writes
  the empty string without any external call, whatever \<open>google_results\<close> holds;
  with both non-empty it invokes the reasoning engine, so \<open>user_input\<close> is a
  precondition of its own. Each of the other analysis nodes invokes the engine (once,
  with an empty query in the prompt) with an empty \<open>user_input\<close> as soon as its
  own source is not empty: Bing and Yandex when their result, as \<open>str\<close> gives it,
  is not empty (any non-empty text, and the dictionary a gathering node writes), Reddit
  when \<open>reddit_post_data\<close> is non-empty text or a non-empty collection. Only the
  Google node requires \<open>user_input\<close>.
\<close>

theorem only_google_analysis_requires_user_input:
  "(empty_field s ''user_input''
      \<longrightarrow> analyze_google_results env s = (Inr [(''google_analysis'', PStr [])], []))
   \<and> (truthy (state_get_default s ''user_input'' (PStr [])) \<and> truthy (state_get s ''google_results'')
      \<longrightarrow> snd (analyze_google_results env s)
           = [LLMInvoke (get_google_analysis_messages env
                           (state_get_default s ''user_input'' (PStr []))
                           (state_get s ''google_results''))])
   \<and> (empty_field s ''user_input'' \<and> s ''bing_results'' = Some b \<and> b \<noteq> PNone \<and> py_str env b \<noteq> []
      \<longrightarrow> snd (analyze_bing_results env s)
           = [LLMInvoke (get_bing_analysis_messages env (PStr []) (PStr (py_str env b)))])
   \<and> (empty_field s ''user_input'' \<and> s ''yandex_results'' = Some y \<and> y \<noteq> PNone \<and> py_str env y \<noteq> []
      \<longrightarrow> snd (analyze_yandex_results env s)
           = [LLMInvoke (get_yandex_analysis_messages env (PStr []) (PStr (py_str env y)))])
   \<and> (empty_field s ''user_input'' \<and> s ''reddit_post_data'' = Some p \<and> truthy p
        \<and> (if is_str p then Inr (PList [p]) else py_list p) = Inr l
      \<longrightarrow> snd (analyze_reddit_results env s)
           = [LLMInvoke (get_reddit_analysis_messages env (PStr [])
                           (str_or_empty env (state_get s ''reddit_results'')) l)])"
  using google_skips_on_empty_input[of s env] google_invokes_with_input[of s env]
    bing_invokes_on_empty_input[of s b env] yandex_invokes_on_empty_input[of s y env]
    reddit_invokes_on_empty_input[of s p l env]
  by blast

theorem only_google_analysis_requires_user_input_witness:
  "empty_field dict_results_state ''user_input''
   \<and> analyze_google_results network_down_env dict_results_state
       = (Inr [(''google_analysis'', PStr [])], [])
   \<and> snd (analyze_google_results network_down_env
             (mock_state(''google_results'' \<mapsto> PStr ''test results'')))
       = [LLMInvoke (PList [PStr ''test query'', PStr ''test results''])]
   \<and> snd (analyze_bing_results network_down_env dict_results_state)
       = [LLMInvoke (PList [PStr [], PStr ''b''])]
   \<and> snd (analyze_yandex_results network_down_env dict_results_state)
       = [LLMInvoke (PList [PStr [], PStr ''<value>''])]
   \<and> snd (analyze_reddit_results network_down_env dict_results_state)
       = [LLMInvoke (PList [PStr [], PStr [], PList [PStr ''d'']])]"
proof -
  have h: "empty_field dict_results_state ''user_input''"
    by (simp add: empty_field_def dict_results_state_def)
  have st: "dict_results_state ''bing_results'' = Some (PStr ''b'')"
    "dict_results_state ''yandex_results''
       = Some (PDict [(''knowledge'', PDict []), (''organic'', PDict [])])"
    "dict_results_state ''reddit_post_data'' = Some (PStr ''d'')"
    "state_get dict_results_state ''reddit_results'' = PNone"
    by (simp_all add: dict_results_state_def mock_state_def state_get_def)
  have g2: "state_get_default (mock_state(''google_results'' \<mapsto> PStr ''test results''))
              ''user_input'' (PStr []) = PStr ''test query''"
    "state_get (mock_state(''google_results'' \<mapsto> PStr ''test results'')) ''google_results''
       = PStr ''test results''"
    by (simp_all add: mock_state_def state_get_def state_get_default_def)
  have e: "py_str network_down_env (PStr ''b'') = ''b''"
    "py_str network_down_env (PDict [(''knowledge'', PDict []), (''organic'', PDict [])]) = ''<value>''"
    "str_or_empty network_down_env PNone = PStr []"
    by (simp_all add: py_str_def str_or_empty_def network_down_env_def mock_env_def)
  have a: "analyze_google_results network_down_env dict_results_state
       = (Inr [(''google_analysis'', PStr [])], [])
   \<and> snd (analyze_bing_results network_down_env dict_results_state)
       = [LLMInvoke (PList [PStr [], PStr ''b''])]
   \<and> snd (analyze_yandex_results network_down_env dict_results_state)
       = [LLMInvoke (PList [PStr [], PStr ''<value>''])]
   \<and> snd (analyze_reddit_results network_down_env dict_results_state)
       = [LLMInvoke (PList [PStr [], PStr [], PList [PStr ''d'']])]"
    using h only_google_analysis_requires_user_input [of dict_results_state network_down_env "PStr ''b''"
            "PDict [(''knowledge'', PDict []), (''organic'', PDict [])]" "PStr ''d''"
            "PList [PStr ''d'']"]
    by (simp add: st e) (simp add: network_down_env_def mock_env_def)
  have b: "snd (analyze_google_results network_down_env
             (mock_state(''google_results'' \<mapsto> PStr ''test results'')))
       = [LLMInvoke (PList [PStr ''test query'', PStr ''test results''])]"
    using only_google_analysis_requires_user_input [of "mock_state(''google_results'' \<mapsto> PStr ''test results'')" network_down_env]
    by (simp add: g2) (simp add: network_down_env_def mock_env_def)
  show ?thesis using h a b by simp
qed

subsection \<open>Synthesis\<close>







subsection \<open>URL selection: the answer of the engine\<close>

lemma select_never_raises:
  "\<exists>v. fst (select_reddit_urls env s) = Inr [(''selected_reddit_urls'', v)]"
  by (simp add: select_reddit_urls_def Let_def ret_def fst_emit split: sum.splits)

text \<open>
  Claim C4 at the input where the code departs from it. The structured engine returns
  the raw mapping \<open>{"selected_urls": 5}\<close>. The value \<open>5\<close> is assigned to
  \<open>selected_urls\<close>, \<open>list(5)\<close> raises \<open>TypeError\<close>, the handler prints, and
  the \<open>return\<close> after the handler yields the number: \<open>selected_reddit_urls\<close> is
  not a list.
\<close>

theorem select_reddit_urls_returns_non_list:
  "select_reddit_urls malformed_mapping_env reddit_found_state
     = (Inr [(''selected_reddit_urls'', PInt 5)],
        [StructuredInvoke (PList [PStr ''test query'', PStr ''Mocked Reddit search results''])])
   \<and> \<not> is_list (PInt 5)"
  by (simp add: select_reddit_urls_def reddit_found_state_def mock_state_def state_get_def
        state_get_default_def malformed_mapping_env_def mock_env_def malformed_mapping_def
        extract_selected_urls_def ensure_list_def py_get_def py_list_def py_iter_def run_defs)

text \<open>
  At that input the guard of the node is passed (the query is text, the Reddit results
  are not empty), the engine is invoked once, and the field written is the number.
\<close>

theorem select_reddit_urls_returns_non_list_witness:
  "is_str (state_get_default reddit_found_state ''user_input'' (PStr []))
   \<and> truthy (state_get reddit_found_state ''reddit_results'')
   \<and> fst (select_reddit_urls malformed_mapping_env reddit_found_state)
       = Inr [(''selected_reddit_urls'', PInt 5)]
   \<and> length (snd (select_reddit_urls malformed_mapping_env reddit_found_state)) = 1"
  using select_reddit_urls_returns_non_list
  by (simp add: reddit_found_state_def mock_state_def state_get_def state_get_default_def)

subsection \<open>Post detail retrieval\<close>

lemma urls_present_iff:
  "urls_present s \<longleftrightarrow>
     (truthy (state_get s ''selected_reddit_urls'') \<and> is_list (state_get s ''selected_reddit_urls'')
      \<and> (case state_get s ''selected_reddit_urls'' of PList urls \<Rightarrow> length urls > 0 | _ \<Rightarrow> False))"
  by (auto simp: urls_present_def state_get_def split: option.splits pyval.splits)

lemma retrieve_unfold:
  "retrieve_reddit_posts env s =
     (if urls_present s then
        (case retrieve_try env s of
           (Inl e, t) \<Rightarrow> (Inr [(''reddit_post_data'', PStr [])], t)
         | (Inr None, t) \<Rightarrow> (Inr [(''reddit_post_data'', PStr [])], t)
         | (Inr (Some content), t) \<Rightarrow> (Inr [(''reddit_post_data'', content)], t))
      else (Inr [(''reddit_post_data'', PStr [])], []))"
  unfolding urls_present_iff
  by (simp add: retrieve_reddit_posts_def retrieve_try_def Let_def run_defs
        split: prod.splits sum.splits option.splits)

lemma no_urls_not_present: "no_selected_urls s \<Longrightarrow> \<not> urls_present s"
  by (auto simp: no_selected_urls_def urls_present_def)

lemma retrieve_never_raises:
  "\<exists>v. fst (retrieve_reddit_posts env s) = Inr [(''reddit_post_data'', v)]"
  by (simp add: retrieve_unfold split: prod.splits sum.splits option.splits)

lemma retrieve_try_raises:
  "fst (retrieve_try env s) = Inl e \<Longrightarrow>
   fst (retrieve_reddit_posts env s) = Inr [(''reddit_post_data'', PStr [])]"
  by (auto simp: retrieve_unfold split: prod.splits sum.splits option.splits)

lemma fst_bind_raises: "fst m = Inl e \<Longrightarrow> fst (bind_run m f) = Inl e"
  by (cases m) (simp add: bind_run_def)

lemma retrieve_provider_raises:
  "fst (scrap_reddit env (state_get s ''selected_reddit_urls'') POST_COMMENTS) = Inl e \<Longrightarrow>
   fst (retrieve_reddit_posts env s) = Inr [(''reddit_post_data'', PStr [])]"
  by (rule retrieve_try_raises[of _ _ e])
     (simp add: retrieve_try_def retrieve_body_def fst_bind_raises)

lemma scrap_reddit_garbled:
  "fst (scrap_reddit garbled_env (PList [PStr ''url1'']) POST_COMMENTS) = Inl AttributeError"
  by (simp add: scrap_reddit_def get_post_comments_by_urls_def make_reddit_post_api_request_def
        garbled_env_def mock_env_def garbled_post_def py_get_def run_defs)

text \<open>
  Claim C7. \<open>retrieve_reddit_posts\<close> never raises. When \<open>selected_reddit_urls\<close>
  is empty or absent it returns \<open>reddit_post_data = ""\<close> without any external call.
  When the provider call \<open>scrap_reddit\<close> raises, or anything else inside the
  \<open>try\<close> raises (reading the response, or the reasoning engine), it returns
  \<open>reddit_post_data = ""\<close>.
\<close>

theorem retrieve_reddit_posts_degrades_to_empty:
  "(no_selected_urls s
      \<longrightarrow> retrieve_reddit_posts env s = (Inr [(''reddit_post_data'', PStr [])], []))
   \<and> (\<exists>v. fst (retrieve_reddit_posts env s) = Inr [(''reddit_post_data'', v)])
   \<and> ((\<exists>e. fst (scrap_reddit env (state_get s ''selected_reddit_urls'') POST_COMMENTS) = Inl e)
        \<longrightarrow> fst (retrieve_reddit_posts env s) = Inr [(''reddit_post_data'', PStr [])])
   \<and> ((\<exists>e. fst (retrieve_try env s) = Inl e)
        \<longrightarrow> fst (retrieve_reddit_posts env s) = Inr [(''reddit_post_data'', PStr [])])"
  using retrieve_never_raises[of env s] retrieve_provider_raises[of env s]
    retrieve_try_raises[of env s] no_urls_not_present[of s]
  by (auto simp: retrieve_unfold)

theorem retrieve_reddit_posts_degrades_to_empty_witness:
  "no_selected_urls mock_state
   \<and> retrieve_reddit_posts garbled_env mock_state = (Inr [(''reddit_post_data'', PStr [])], [])
   \<and> fst (scrap_reddit garbled_env (state_get urls_selected_state ''selected_reddit_urls'')
            POST_COMMENTS) = Inl AttributeError
   \<and> fst (retrieve_reddit_posts garbled_env urls_selected_state)
       = Inr [(''reddit_post_data'', PStr [])]"
proof -
  have n: "no_selected_urls mock_state"
    by (simp add: no_selected_urls_def mock_state_def)
  have u: "state_get urls_selected_state ''selected_reddit_urls'' = PList [PStr ''url1'']"
    by (simp add: state_get_def urls_selected_state_def)
  show ?thesis
    using n retrieve_reddit_posts_degrades_to_empty [of mock_state garbled_env]
      retrieve_reddit_posts_degrades_to_empty [of urls_selected_state garbled_env]
      scrap_reddit_garbled
    by (simp add: u)
qed

subsection \<open>The polling loop of scrap\_reddit\<close>

lemma status_url_is_status: "is_status_url (snapshot_status_url env sid)"
  by (simp add: is_status_url_def snapshot_status_url_def)

lemma data_url_not_status: "\<not> is_status_url (snapshot_data_url env sid)"
  by (simp add: is_status_url_def snapshot_data_url_def REDDIT_SNAPSHOT_PROGRESS_BASE_URL_def
        REDDIT_SNAPSHOT_URL_def)

lemma poll_schedule_simps:
  "poll_schedule [] = []"
  "poll_schedule (e # t) = ticks_of e @ poll_schedule t"
  "poll_schedule (t @ t') = poll_schedule t @ poll_schedule t'"
  by (simp_all add: poll_schedule_def)

lemma poll_loop_step:
  "poll_loop env op sid (Suc n) i =
     (case poll_status env sid i of
        None \<Rightarrow>
          (case http_get env i (snapshot_status_url env sid) of
             Inr response \<Rightarrow>
               if truthy response then (Inl AttributeError, [HttpGet (snapshot_status_url env sid)])
               else (Inr PNone, [HttpGet (snapshot_status_url env sid)])
           | Inl e \<Rightarrow> (Inr PNone, [HttpGet (snapshot_status_url env sid)]))
      | Some status \<Rightarrow>
          if status = PStr ''ready'' then
            emit [HttpGet (snapshot_status_url env sid)]
              (bind_run (get_snapshot_data_by_id env (Suc i) sid) (\<lambda>snapshot_response_data.
                 if \<not> truthy snapshot_response_data then ret PNone
                 else (case op of
                         POSTS \<Rightarrow> lift (parse_reddit_data_collection_response snapshot_response_data)
                       | POST_COMMENTS \<Rightarrow> lift (parse_reddit_post_details_response snapshot_response_data))))
          else if status = PStr ''failed'' then (Inr PNone, [HttpGet (snapshot_status_url env sid)])
          else emit [HttpGet (snapshot_status_url env sid), Sleep 10] (poll_loop env op sid n (Suc i)))"
  by (auto simp: poll_status_def get_snapshot_status_by_snapshot_id_def
        make_reddit_get_api_request_def py_get_def run_defs
        split: sum.splits prod.splits pyval.splits)

lemma snd_data_fetch:
  "snd (bind_run (get_snapshot_data_by_id env c sid) (\<lambda>d.
          if \<not> truthy d then ret PNone
          else (case op of POSTS \<Rightarrow> lift (f d) | POST_COMMENTS \<Rightarrow> lift (g d))))
   = [HttpGet (snapshot_data_url env sid)]"
  by (simp add: get_snapshot_data_by_id_def make_reddit_get_api_request_def run_defs
        split: sum.splits prod.splits RedditScrapeOperationType.splits)

lemma poll_loop_schedule:
  "\<exists>k. poll_schedule (snd (poll_loop env op sid n i)) = take k (concat (replicate n [Poll, Delay 10]))"
proof (induction n arbitrary: i)
  case 0
  show ?case by (simp add: ret_def poll_schedule_simps)
next
  case (Suc n)
  obtain k where k: "poll_schedule (snd (poll_loop env op sid n (Suc i)))
                       = take k (concat (replicate n [Poll, Delay 10]))"
    using Suc.IH by blast
  show ?case
    unfolding poll_loop_step
    by (auto simp: status_url_is_status data_url_not_status snd_emit snd_data_fetch k poll_schedule_simps
          split: option.splits sum.splits intro: exI[of _ 1] exI[of _ "Suc (Suc k)"])
qed

lemma poll_loop_pending:
  "pending env sid i \<Longrightarrow>
   poll_loop env op sid (Suc n) i
     = emit [HttpGet (snapshot_status_url env sid), Sleep 10] (poll_loop env op sid n (Suc i))"
  unfolding poll_loop_step by (auto simp: pending_def split: option.splits)

lemma poll_loop_failed:
  "poll_status env sid i = Some (PStr ''failed'') \<Longrightarrow>
   poll_loop env op sid (Suc n) i = (Inr PNone, [HttpGet (snapshot_status_url env sid)])"
  unfolding poll_loop_step by simp

lemma poll_loop_fails_after:
  "\<lbrakk>\<forall>j. i \<le> j \<and> j < i + k \<longrightarrow> pending env sid j; k < n;
    poll_status env sid (i + k) = Some (PStr ''failed'')\<rbrakk> \<Longrightarrow>
   poll_loop env op sid n i
     = (Inr PNone, concat (replicate k [HttpGet (snapshot_status_url env sid), Sleep 10])
                     @ [HttpGet (snapshot_status_url env sid)])"
proof (induction k arbitrary: n i)
  case 0
  then obtain m where "n = Suc m" by (cases n) auto
  with 0 show ?case by (simp add: poll_loop_failed del: poll_loop.simps)
next
  case (Suc k)
  then obtain m where n: "n = Suc m" by (cases n) auto
  have p: "pending env sid i" using Suc.prems(1) by simp
  have rest: "poll_loop env op sid m (Suc i)
     = (Inr PNone, concat (replicate k [HttpGet (snapshot_status_url env sid), Sleep 10])
                     @ [HttpGet (snapshot_status_url env sid)])"
    using Suc.prems n by (intro Suc.IH) auto
  show ?case
    by (simp add: n poll_loop_pending[OF p] rest emit_def del: poll_loop.simps)
qed

lemma poll_loop_exhausted:
  "\<forall>j. i \<le> j \<and> j < i + n \<longrightarrow> pending env sid j \<Longrightarrow>
   poll_loop env op sid n i
     = (Inr PNone, concat (replicate n [HttpGet (snapshot_status_url env sid), Sleep 10]))"
proof (induction n arbitrary: i)
  case 0
  show ?case by (simp add: ret_def)
next
  case (Suc n)
  have p: "pending env sid i" using Suc.prems by simp
  have rest: "poll_loop env op sid n (Suc i)
     = (Inr PNone, concat (replicate n [HttpGet (snapshot_status_url env sid), Sleep 10]))"
    using Suc.prems by (intro Suc.IH) auto
  show ?case
    by (simp add: poll_loop_pending[OF p] rest emit_def del: poll_loop.simps)
qed

lemma poll_loop_value_needs_ready:
  "fst (poll_loop env op sid n i) = Inr v \<Longrightarrow> v \<noteq> PNone \<Longrightarrow>
   \<exists>j. i \<le> j \<and> j < i + n \<and> poll_status env sid j = Some (PStr ''ready'')"
proof (induction n arbitrary: i)
  case 0
  then show ?case by (simp add: ret_def)
next
  case (Suc n)
  show ?case
  proof (cases "poll_status env sid i = Some (PStr ''ready'')")
    case True
    then show ?thesis by (intro exI[of _ i]) simp
  next
    case False
    have "fst (poll_loop env op sid n (Suc i)) = Inr v"
      using Suc.prems False unfolding poll_loop_step
      by (auto simp: fst_emit split: option.splits sum.splits if_splits)
    then obtain j where "Suc i \<le> j" "j < Suc i + n" "poll_status env sid j = Some (PStr ''ready'')"
      using Suc.IH Suc.prems(2) by blast
    then show ?thesis by (intro exI[of _ j]) simp
  qed
qed

lemma scrap_reddit_with_job:
  assumes "job_snapshot_id env query op = Some sid"
  shows "fst (scrap_reddit env query op) = fst (poll_loop env op sid MAX_ATTEMPTS 0)"
    and "poll_schedule (snd (scrap_reddit env query op))
           = poll_schedule (snd (poll_loop env op sid MAX_ATTEMPTS 0))"
  using assms
  by (auto simp: scrap_reddit_def job_snapshot_id_def run_defs poll_schedule_simps Let_def
        trigger_reddit_data_collection_def get_post_comments_by_urls_def
        make_reddit_post_api_request_def py_get_def
        split: RedditScrapeOperationType.splits pyval.splits sum.splits prod.splits
               option.splits if_splits)

lemma scrap_reddit_without_job:
  assumes "job_snapshot_id env query op = None"
  shows "poll_schedule (snd (scrap_reddit env query op)) = []"
  using assms
  by (auto simp: scrap_reddit_def job_snapshot_id_def run_defs poll_schedule_simps Let_def
        trigger_reddit_data_collection_def get_post_comments_by_urls_def
        make_reddit_post_api_request_def py_get_def
        split: RedditScrapeOperationType.splits pyval.splits sum.splits prod.splits
               option.splits if_splits)

lemma polls_in_full_schedule:
  "length (filter (\<lambda>x. x = Poll) (concat (replicate n [Poll, Delay 10]))) = n"
  by (induction n) auto

lemma polls_in_prefix:
  "length (filter (\<lambda>x. x = Poll) (take k (concat (replicate n [Poll, Delay 10])))) \<le> n"
proof -
  have "length (filter (\<lambda>x. x = Poll) (take k (concat (replicate n [Poll, Delay 10]))))
          \<le> length (filter (\<lambda>x. x = Poll) (take k (concat (replicate n [Poll, Delay 10]))
                                          @ drop k (concat (replicate n [Poll, Delay 10]))))"
    by (simp del: append_take_drop_id)
  then show ?thesis by (simp add: polls_in_full_schedule)
qed

lemma scrap_reddit_schedule:
  "\<exists>k. poll_schedule (snd (scrap_reddit env query op))
         = take k (concat (replicate MAX_ATTEMPTS [Poll, Delay 10]))"
proof (cases "job_snapshot_id env query op")
  case None
  then show ?thesis using scrap_reddit_without_job by (intro exI[of _ 0]) simp
next
  case (Some sid)
  then show ?thesis using scrap_reddit_with_job(2) poll_loop_schedule by metis
qed

lemma never_ready_job:
  "job_snapshot_id never_ready_env (PStr ''test query'') POSTS = Some (PStr ''s1'')"
  by (simp add: job_snapshot_id_def trigger_reddit_data_collection_def
        make_reddit_post_api_request_def never_ready_env_def mock_env_def job_accepted_post_def
        py_get_def run_defs)

lemma never_ready_pending: "pending never_ready_env sid j"
  by (simp add: pending_def poll_status_def never_ready_env_def mock_env_def never_ready_get_def
        py_get_def)

lemma fails_second_job:
  "job_snapshot_id fails_second_env (PStr ''test query'') POSTS = Some (PStr ''s1'')"
  by (simp add: job_snapshot_id_def trigger_reddit_data_collection_def
        make_reddit_post_api_request_def fails_second_env_def mock_env_def job_accepted_post_def
        py_get_def run_defs)

lemma fails_second_status:
  "poll_status fails_second_env sid j
     = Some (if j = 1 then PStr ''failed'' else PStr ''running'')"
  by (simp add: poll_status_def fails_second_env_def mock_env_def fails_second_get_def py_get_def)

text \<open>
  Claim C6. \<open>MAX_ATTEMPTS\<close> is 50. Whatever the provider does, the status polls
  and delays of \<open>scrap_reddit\<close>, in order, are an initial part of fifty repetitions
  of "poll, wait 10": at most 50 polls, a delay of exactly 10 after each poll that does
  not end the loop. For a submitted job: when a poll reports \<open>failed\<close> after
  pending polls only, the result is \<open>None\<close> and no further poll is made; when all
  50 polls are pending, the result is \<open>None\<close> after exactly 50 polls; and the
  result is a value other than \<open>None\<close> only if one of the 50 polls reports
  \<open>ready\<close>. The loop is a structural recursion on the attempts that remain, so it
  always returns.
\<close>

theorem scrap_reddit_polling_is_bounded:
  "MAX_ATTEMPTS = 50
   \<and> (\<exists>n. poll_schedule (snd (scrap_reddit env query op))
            = take n (concat (replicate MAX_ATTEMPTS [Poll, Delay 10])))
   \<and> length (filter (\<lambda>x. x = Poll) (poll_schedule (snd (scrap_reddit env query op)))) \<le> 50
   \<and> (job_snapshot_id env query op = Some sid \<longrightarrow>
        (k < MAX_ATTEMPTS \<and> (\<forall>j<k. pending env sid j)
           \<and> poll_status env sid k = Some (PStr ''failed'')
           \<longrightarrow> fst (scrap_reddit env query op) = Inr PNone
               \<and> poll_schedule (snd (scrap_reddit env query op))
                   = concat (replicate k [Poll, Delay 10]) @ [Poll])
      \<and> ((\<forall>j<MAX_ATTEMPTS. pending env sid j)
           \<longrightarrow> fst (scrap_reddit env query op) = Inr PNone
               \<and> poll_schedule (snd (scrap_reddit env query op))
                   = concat (replicate MAX_ATTEMPTS [Poll, Delay 10]))
      \<and> (\<forall>v. fst (scrap_reddit env query op) = Inr v \<and> v \<noteq> PNone
           \<longrightarrow> (\<exists>j<MAX_ATTEMPTS. poll_status env sid j = Some (PStr ''ready''))))"
proof -
  have bound: "length (filter (\<lambda>x. x = Poll) (poll_schedule (snd (scrap_reddit env query op)))) \<le> 50"
    using scrap_reddit_schedule[of env query op] polls_in_prefix[of _ MAX_ATTEMPTS]
    by (auto simp: MAX_ATTEMPTS_def)
  have sched_rep: "\<And>n. poll_schedule (concat (replicate n [HttpGet (snapshot_status_url env sid), Sleep 10]))
                     = concat (replicate n [Poll, Delay 10])"
    subgoal for n by (induction n) (simp_all add: poll_schedule_simps status_url_is_status)
    done
  have failed: "fst (scrap_reddit env query op) = Inr PNone
               \<and> poll_schedule (snd (scrap_reddit env query op))
                   = concat (replicate k [Poll, Delay 10]) @ [Poll]"
    if job: "job_snapshot_id env query op = Some sid"
      and h: "k < MAX_ATTEMPTS" "\<forall>j<k. pending env sid j" "poll_status env sid k = Some (PStr ''failed'')"
  proof -
    have "poll_loop env op sid MAX_ATTEMPTS 0
       = (Inr PNone, concat (replicate k [HttpGet (snapshot_status_url env sid), Sleep 10])
                     @ [HttpGet (snapshot_status_url env sid)])"
      using h by (intro poll_loop_fails_after) auto
    then show ?thesis
      by (simp add: scrap_reddit_with_job[OF job] poll_schedule_simps sched_rep status_url_is_status)
  qed
  have exhausted: "fst (scrap_reddit env query op) = Inr PNone
               \<and> poll_schedule (snd (scrap_reddit env query op))
                   = concat (replicate MAX_ATTEMPTS [Poll, Delay 10])"
    if job: "job_snapshot_id env query op = Some sid"
      and h: "\<forall>j<MAX_ATTEMPTS. pending env sid j"
  proof -
    have "poll_loop env op sid MAX_ATTEMPTS 0
       = (Inr PNone, concat (replicate MAX_ATTEMPTS [HttpGet (snapshot_status_url env sid), Sleep 10]))"
      using h by (intro poll_loop_exhausted) auto
    then show ?thesis
      by (simp add: scrap_reddit_with_job[OF job] sched_rep)
  qed
  have ready: "\<exists>j<MAX_ATTEMPTS. poll_status env sid j = Some (PStr ''ready'')"
    if job: "job_snapshot_id env query op = Some sid"
      and h: "fst (scrap_reddit env query op) = Inr v" "v \<noteq> PNone" for v
    using poll_loop_value_needs_ready[of env op sid MAX_ATTEMPTS 0 v] h
    by (auto simp: scrap_reddit_with_job(1)[OF job])
  show ?thesis
    using bound scrap_reddit_schedule[of env query op] failed exhausted ready
    by (simp add: MAX_ATTEMPTS_def)
qed

theorem scrap_reddit_polling_is_bounded_witness:
  "job_snapshot_id never_ready_env (PStr ''test query'') POSTS = Some (PStr ''s1'')
   \<and> fst (scrap_reddit never_ready_env (PStr ''test query'') POSTS) = Inr PNone
   \<and> poll_schedule (snd (scrap_reddit never_ready_env (PStr ''test query'') POSTS))
       = concat (replicate 50 [Poll, Delay 10])
   \<and> job_snapshot_id fails_second_env (PStr ''test query'') POSTS = Some (PStr ''s1'')
   \<and> poll_status fails_second_env (PStr ''s1'') 1 = Some (PStr ''failed'')
   \<and> fst (scrap_reddit fails_second_env (PStr ''test query'') POSTS) = Inr PNone
   \<and> poll_schedule (snd (scrap_reddit fails_second_env (PStr ''test query'') POSTS))
       = [Poll, Delay 10, Poll]"
proof -
  have p1: "\<forall>j<1. pending fails_second_env (PStr ''s1'') j"
    by (simp add: pending_def fails_second_status)
  have f1: "poll_status fails_second_env (PStr ''s1'') 1 = Some (PStr ''failed'')"
    by (simp add: fails_second_status)
  have a: "fst (scrap_reddit never_ready_env (PStr ''test query'') POSTS) = Inr PNone
   \<and> poll_schedule (snd (scrap_reddit never_ready_env (PStr ''test query'') POSTS))
       = concat (replicate 50 [Poll, Delay 10])"
    using scrap_reddit_polling_is_bounded
            [of never_ready_env "PStr ''test query''" POSTS "PStr ''s1''" 0]
      never_ready_job never_ready_pending
    by (simp add: MAX_ATTEMPTS_def)
  have b: "fst (scrap_reddit fails_second_env (PStr ''test query'') POSTS) = Inr PNone
   \<and> poll_schedule (snd (scrap_reddit fails_second_env (PStr ''test query'') POSTS))
       = [Poll, Delay 10, Poll]"
    using scrap_reddit_polling_is_bounded
            [of fails_second_env "PStr ''test query''" POSTS "PStr ''s1''" 1]
      fails_second_job p1 f1
    by (simp add: MAX_ATTEMPTS_def)
  show ?thesis using a b never_ready_job fails_second_job f1 by simp
qed

subsection \<open>Failure isolation\<close>

lemma poll_loop_no_engine: "LLMInvoke m \<notin> set (snd (poll_loop env op sid n i))"
proof (induction n arbitrary: i)
  case 0
  show ?case by (simp add: ret_def)
next
  case (Suc n)
  show ?case
    unfolding poll_loop_step
    using Suc.IH[of "Suc i"]
    by (auto simp: snd_emit snd_data_fetch split: option.splits sum.splits)
qed

lemma submission_no_engine:
  "LLMInvoke m \<notin> set (snd (trigger_reddit_data_collection env q))"
  "LLMInvoke m \<notin> set (snd (get_post_comments_by_urls env urls))"
  by (simp_all add: trigger_reddit_data_collection_def get_post_comments_by_urls_def
        make_reddit_post_api_request_def snd_emit ret_def Let_def split: sum.splits)

lemma scrap_reddit_no_engine: "LLMInvoke m \<notin> set (snd (scrap_reddit env query op))"
  unfolding scrap_reddit_def
  by (auto simp: snd_bind submission_no_engine poll_loop_no_engine ret_def lift_def
        split: sum.splits RedditScrapeOperationType.splits pyval.splits)

lemma retrieve_body_invoke_raises:
  assumes "LLMInvoke m \<in> set (snd (retrieve_body env u r urls))"
    and "llm_invoke env m = Inl e"
  shows "fst (retrieve_body env u r urls) = Inl e"
  using assms scrap_reddit_no_engine[of m env urls POST_COMMENTS]
  unfolding retrieve_body_def
  by (auto simp: snd_bind fst_bind invoke_llm_def snd_emit fst_emit ret_def lift_def Let_def
        split: sum.splits if_splits)

lemma retrieve_invoke_raises:
  assumes "LLMInvoke m \<in> set (snd (retrieve_reddit_posts env s))"
    and "llm_invoke env m = Inl e"
  shows "fst (retrieve_reddit_posts env s) = Inr [(''reddit_post_data'', PStr [])]"
proof -
  have tr: "LLMInvoke m \<in> set (snd (retrieve_try env s))"
    using assms(1) by (auto simp: retrieve_unfold split: if_splits prod.splits sum.splits option.splits)
  have "fst (retrieve_try env s) = Inl e"
    using tr assms(2) unfolding retrieve_try_def by (rule retrieve_body_invoke_raises)
  then show ?thesis by (rule retrieve_try_raises)
qed

lemma select_trace:
  "snd (select_reddit_urls env s) =
     (if non_text_input s \<or> \<not> truthy (state_get s ''reddit_results'') then []
      else [StructuredInvoke (selection_messages env s)])"
  by (auto simp: select_reddit_urls_def selection_messages_def non_text_input_iff Let_def
        snd_emit ret_def split: sum.splits)

lemma select_prompt_raises:
  "structured_invoke env (selection_messages env s) = Inl e \<Longrightarrow>
   fst (select_reddit_urls env s) = Inr [(''selected_reddit_urls'', PList [])]"
  by (auto simp: select_reddit_urls_def selection_messages_def Let_def fst_emit ret_def)

lemma select_invoke_raises:
  assumes "StructuredInvoke m \<in> set (snd (select_reddit_urls env s))"
    and "structured_invoke env m = Inl e"
  shows "fst (select_reddit_urls env s) = Inr [(''selected_reddit_urls'', PList [])]"
proof -
  have "m = selection_messages env s"
    using assms(1) by (auto simp: select_trace split: if_splits)
  then show ?thesis using assms(2) select_prompt_raises by simp
qed

lemma gathering_propagates:
  "truthy (state_get s ''user_input'') \<Longrightarrow>
   (fst (serp_search env (state_get s ''user_input'') GOOGLE) = Inl e
      \<longrightarrow> fst (google_search env s) = Inl e)
   \<and> (fst (serp_search env (state_get s ''user_input'') BING) = Inl e
      \<longrightarrow> fst (bing_search env s) = Inl e)
   \<and> (fst (serp_search env (state_get s ''user_input'') Yandex) = Inl e
      \<longrightarrow> fst (yandex_search env s) = Inl e)
   \<and> (fst (scrap_reddit env (state_get s ''user_input'') POSTS) = Inl e
      \<longrightarrow> fst (reddit_search env s) = Inl e)"
  by (simp add: google_search_def bing_search_def yandex_search_def reddit_search_def
        fst_bind_raises)

lemma serp_search_url_unset:
  "fst (serp_search url_unset_env (PStr ''test query'') GOOGLE)
     = Inl (ValueError ''BRIGHT_DATA_API_URL environment variable not set.'')"
  by (simp add: serp_search_def url_unset_env_def mock_env_def run_defs)

lemma select_messages_engine_failing:
  "selection_messages engine_failing_env reddit_found_state
     = PList [PStr ''test query'', PStr ''Mocked Reddit search results'']"
  by (simp add: selection_messages_def engine_failing_env_def mock_env_def reddit_found_state_def
        mock_state_def state_get_def state_get_default_def)

lemma select_trace_engine_failing:
  "StructuredInvoke (PList [PStr ''test query'', PStr ''Mocked Reddit search results''])
     \<in> set (snd (select_reddit_urls engine_failing_env reddit_found_state))"
  unfolding select_trace select_messages_engine_failing
  by (simp add: non_text_input_def reddit_found_state_def mock_state_def state_get_def)

lemma retrieve_trace_engine_failing:
  "LLMInvoke comment_prompt
     \<in> set (snd (retrieve_reddit_posts comments_ready_engine_failing_env urls_selected_state))"
  by (simp add: retrieve_unfold urls_present_def retrieve_try_def retrieve_body_def
        urls_selected_state_def mock_state_def comment_prompt_def
        state_get_def state_get_default_def coerce_text_def
        scrap_reddit_def get_post_comments_by_urls_def make_reddit_post_api_request_def
        comments_ready_engine_failing_env_def mock_env_def job_accepted_post_def
        comments_ready_get_def llm_failing_def MAX_ATTEMPTS_def
        get_snapshot_status_by_snapshot_id_def get_snapshot_data_by_id_def
        make_reddit_get_api_request_def parse_reddit_post_details_response_def
        parse_post_detail_def comment_fields_def py_get_def py_iter_def py_len_def
        invoke_llm_def run_defs numeral_eq_Suc)

text \<open>
  Claim C1, as the code has it. The two Reddit nodes are failure-isolation boundaries.
  \<open>select_reddit_urls\<close> never raises, and when its call of the reasoning engine
  raises (the engine raises on the prompt the node sent) it returns
  \<open>selected_reddit_urls = []\<close>. \<open>retrieve_reddit_posts\<close> never raises, and when
  its call of the reasoning engine or its provider call \<open>scrap_reddit\<close> raises it
  returns \<open>reddit_post_data = ""\<close>. The gathering nodes have no handler: an
  exception of their provider (for instance the \<open>ValueError\<close> of
  \<open>serp_search\<close> when \<open>BRIGHT_DATA_API_URL\<close> is not set) leaves the node.
\<close>

theorem failure_isolation_by_node:
  "(\<exists>v. fst (select_reddit_urls env s) = Inr [(''selected_reddit_urls'', v)])
   \<and> (structured_invoke env (selection_messages env s) = Inl e1
        \<longrightarrow> fst (select_reddit_urls env s) = Inr [(''selected_reddit_urls'', PList [])])
   \<and> (StructuredInvoke m1 \<in> set (snd (select_reddit_urls env s)) \<and> structured_invoke env m1 = Inl e1
        \<longrightarrow> fst (select_reddit_urls env s) = Inr [(''selected_reddit_urls'', PList [])])
   \<and> (\<exists>v. fst (retrieve_reddit_posts env s) = Inr [(''reddit_post_data'', v)])
   \<and> (LLMInvoke m2 \<in> set (snd (retrieve_reddit_posts env s)) \<and> llm_invoke env m2 = Inl e2
        \<longrightarrow> fst (retrieve_reddit_posts env s) = Inr [(''reddit_post_data'', PStr [])])
   \<and> (fst (scrap_reddit env (state_get s ''selected_reddit_urls'') POST_COMMENTS) = Inl e3
        \<longrightarrow> fst (retrieve_reddit_posts env s) = Inr [(''reddit_post_data'', PStr [])])
   \<and> (truthy (state_get s ''user_input'') \<longrightarrow>
        (fst (serp_search env (state_get s ''user_input'') GOOGLE) = Inl e
           \<longrightarrow> fst (google_search env s) = Inl e)
      \<and> (fst (serp_search env (state_get s ''user_input'') BING) = Inl e
           \<longrightarrow> fst (bing_search env s) = Inl e)
      \<and> (fst (serp_search env (state_get s ''user_input'') Yandex) = Inl e
           \<longrightarrow> fst (yandex_search env s) = Inl e)
      \<and> (fst (scrap_reddit env (state_get s ''user_input'') POSTS) = Inl e
           \<longrightarrow> fst (reddit_search env s) = Inl e))"
  using select_never_raises[of env s] select_prompt_raises[of env s e1]
    select_invoke_raises[of m1 env s e1]
    retrieve_never_raises[of env s] retrieve_invoke_raises[of m2 env s e2]
    retrieve_provider_raises[of env s e3]
    gathering_propagates[of s env e]
  by blast

theorem failure_isolation_by_node_witness:
  "structured_invoke engine_failing_env
       (PList [PStr ''test query'', PStr ''Mocked Reddit search results''])
     = Inl (ExternalError ''Analysis error'')
   \<and> StructuredInvoke (PList [PStr ''test query'', PStr ''Mocked Reddit search results''])
       \<in> set (snd (select_reddit_urls engine_failing_env reddit_found_state))
   \<and> fst (select_reddit_urls engine_failing_env reddit_found_state)
     = Inr [(''selected_reddit_urls'', PList [])]
   \<and> llm_invoke comments_ready_engine_failing_env comment_prompt
     = Inl (ExternalError ''Analysis error'')
   \<and> LLMInvoke comment_prompt
       \<in> set (snd (retrieve_reddit_posts comments_ready_engine_failing_env urls_selected_state))
   \<and> fst (retrieve_reddit_posts comments_ready_engine_failing_env urls_selected_state)
     = Inr [(''reddit_post_data'', PStr [])]
   \<and> fst (scrap_reddit garbled_env (state_get urls_selected_state ''selected_reddit_urls'')
            POST_COMMENTS) = Inl AttributeError
   \<and> fst (retrieve_reddit_posts garbled_env urls_selected_state)
     = Inr [(''reddit_post_data'', PStr [])]
   \<and> truthy (state_get mock_state ''user_input'')
   \<and> fst (google_search url_unset_env mock_state)
     = Inl (ValueError ''BRIGHT_DATA_API_URL environment variable not set.'')"
proof -
  have ui: "state_get mock_state ''user_input'' = PStr ''test query''"
    by (simp add: state_get_def mock_state_def)
  have u: "state_get urls_selected_state ''selected_reddit_urls'' = PList [PStr ''url1'']"
    by (simp add: state_get_def urls_selected_state_def)
  have se: "structured_invoke engine_failing_env
       (PList [PStr ''test query'', PStr ''Mocked Reddit search results''])
     = Inl (ExternalError ''Analysis error'')"
    by (simp add: engine_failing_env_def mock_env_def llm_failing_def)
  have le: "llm_invoke comments_ready_engine_failing_env comment_prompt
     = Inl (ExternalError ''Analysis error'')"
    by (simp add: comments_ready_engine_failing_env_def mock_env_def llm_failing_def)
  have a: "fst (select_reddit_urls engine_failing_env reddit_found_state)
     = Inr [(''selected_reddit_urls'', PList [])]"
    using failure_isolation_by_node
            [of engine_failing_env reddit_found_state "ExternalError ''Analysis error''"
                "PList [PStr ''test query'', PStr ''Mocked Reddit search results'']"]
      se select_trace_engine_failing by blast
  have b: "fst (retrieve_reddit_posts comments_ready_engine_failing_env urls_selected_state)
     = Inr [(''reddit_post_data'', PStr [])]"
    using failure_isolation_by_node
            [of comments_ready_engine_failing_env urls_selected_state _ _ comment_prompt
                "ExternalError ''Analysis error''"]
      le retrieve_trace_engine_failing by blast
  have c: "fst (retrieve_reddit_posts garbled_env urls_selected_state)
     = Inr [(''reddit_post_data'', PStr [])]"
    using failure_isolation_by_node
            [of garbled_env urls_selected_state _ _ _ _ AttributeError]
      scrap_reddit_garbled by (simp add: u)
  have d: "fst (google_search url_unset_env mock_state)
     = Inl (ValueError ''BRIGHT_DATA_API_URL environment variable not set.'')"
    using failure_isolation_by_node
            [of url_unset_env mock_state _ _ _ _ _
                "ValueError ''BRIGHT_DATA_API_URL environment variable not set.''"]
      serp_search_url_unset
    by (simp add: ui)
  show ?thesis
    using se select_trace_engine_failing a le retrieve_trace_engine_failing b c d scrap_reddit_garbled
    by (simp add: ui u)
qed

text \<open>
  Where claim C1 fails: with \<open>BRIGHT_DATA_API_URL\<close> unset \<open>google_search\<close>
  raises the \<open>ValueError\<close> of \<open>serp_search\<close>, and with a failing engine
  \<open>analyze_google_results\<close> raises the engine's exception.
\<close>

theorem nodes_propagate_exceptions_counterexample:
  "fst (google_search url_unset_env mock_state)
     = Inl (ValueError ''BRIGHT_DATA_API_URL environment variable not set.'')
   \<and> fst (analyze_google_results engine_failing_env
            (mock_state(''google_results'' \<mapsto> PStr ''test results'')))
     = Inl (ExternalError ''Analysis error'')"
  by (simp add: google_search_def analyze_google_results_def serp_search_def mock_state_def
        state_get_def state_get_default_def url_unset_env_def engine_failing_env_def mock_env_def
        llm_failing_def invoke_llm_def run_defs)

end
